theory Spec2Isabelle
  imports Main "HOL-Library.Word"
begin

section \<open>The device core of Oclgrind (src/core/Device.cpp)\<close>

text \<open>
  A shallow embedding of \<^verbatim>\<open>Device.cpp\<close>: the work-group scheduler, the error
  router and the parts of the interactive debugger that drive the scheduler.
  Member variables keep their names as record fields, member functions as
  functions from the device state to the new device state.
\<close>

subsection \<open>Machine integers and fixed-size arrays\<close>

text \<open>\<^verbatim>\<open>size_t\<close> is a 64-bit unsigned integer: arithmetic wraps around.\<close>

type_synonym size_t = "64 word"

text \<open>
  \<^verbatim>\<open>size_t a[3]\<close>: the three components of a size, an offset or an id. Where the
  source indexes such an array with a constant the component is taken by pattern
  matching; where it indexes with a loop variable, \<open>at3\<close> and \<open>upd3\<close> make the
  out-of-range access (undefined behaviour in C++) a fault.
\<close>

type_synonym size3 = "size_t \<times> size_t \<times> size_t"

datatype fault = DivideByZero | OutOfBounds | NullPointer | AssertionFailed

fun at3 :: "size3 \<Rightarrow> nat \<Rightarrow> fault + size_t" where
  "at3 (a, b, c) i =
     (if i = 0 then Inr a else if i = 1 then Inr b else if i = 2 then Inr c
      else Inl OutOfBounds)"

fun upd3 :: "size3 \<Rightarrow> nat \<Rightarrow> size_t \<Rightarrow> fault + size3" where
  "upd3 (a, b, c) i v =
     (if i = 0 then Inr (v, b, c) else if i = 1 then Inr (a, v, c)
      else if i = 2 then Inr (a, b, v) else Inl OutOfBounds)"

text \<open>A read of a caller's array through a \<^verbatim>\<open>const size_t *\<close>.\<close>

definition deref :: "size_t list \<Rightarrow> nat \<Rightarrow> fault + size_t" where
  "deref xs i = (if i < length xs then Inr (xs ! i) else Inl OutOfBounds)"

subsection \<open>Decoding the other entity of a data race\<close>

text \<open>
  \<^verbatim>\<open>notifyDataRace\<close>, lines 241-244 and 252-255: the same three assignments decode
  \<^verbatim>\<open>lastWorkItem\<close> against \<^verbatim>\<open>m_globalSize\<close> and \<^verbatim>\<open>lastWorkGroup\<close> against
  \<^verbatim>\<open>m_numGroups\<close>. A zero divisor traps.
\<close>

definition race_coords :: "size3 \<Rightarrow> size_t \<Rightarrow> fault + size3" where
  "race_coords S i =
     (case S of (s0, s1, s2) \<Rightarrow>
        if s0 = 0 then Inl DivideByZero
        else let gx = i mod s0 in
          if s1 = 0 then Inl DivideByZero
          else let gy = (i - gx) div s1 in
            if s2 = 0 then Inl DivideByZero
            else let gz = (i - gy - gx) div s2 in Inr (gx, gy, gz))"

text \<open>
  Modelled from the spec: the callers of \<^verbatim>\<open>notifyDataRace\<close> (the memory subsystem)
  are not part of \<^verbatim>\<open>Device.cpp\<close>; the conventional row-major linearisation the
  round-trip property names is \<open>i = x + y * S0 + z * S0 * S1\<close>.
\<close>

definition row_major_index :: "size3 \<Rightarrow> size3 \<Rightarrow> size_t" where
  "row_major_index S g =
     (case S of (s0, s1, s2) \<Rightarrow> case g of (x, y, z) \<Rightarrow> x + y * s0 + z * s0 * s1)"

subsection \<open>Output streams\<close>

text \<open>
  \<^verbatim>\<open>cerr\<close> and \<^verbatim>\<open>cout\<close>. A stream keeps its number base between insertions
  (\<^verbatim>\<open>hex\<close> and \<^verbatim>\<open>dec\<close> are sticky) and records what was written: a string, a
  number together with the base it was formatted in, or an end of line.
\<close>

datatype radix = Dec | Hex

datatype tok = Str string | Num radix size_t | Endl

record ostream =
  base :: radix
  written :: "tok list"

text \<open>The operands of \<^verbatim>\<open><<\<close>: strings, numbers, \<^verbatim>\<open>dec\<close>, \<^verbatim>\<open>hex\<close> and \<^verbatim>\<open>endl\<close>.\<close>

datatype manip = S string | N size_t | SetDec | SetHex | NewLine

fun put :: "ostream \<Rightarrow> manip \<Rightarrow> ostream" where
  "put os (S s) = os\<lparr>written := written os @ [Str s]\<rparr>"
| "put os (N n) = os\<lparr>written := written os @ [Num (base os) n]\<rparr>"
| "put os SetDec = os\<lparr>base := Dec\<rparr>"
| "put os SetHex = os\<lparr>base := Hex\<rparr>"
| "put os NewLine = os\<lparr>written := written os @ [Endl]\<rparr>"

definition emit :: "manip list \<Rightarrow> ostream \<Rightarrow> ostream" where
  "emit ms os = foldl put os ms"

text \<open>What a sequence of insertions appends to a stream whose base is \<open>b\<close>, and the base it leaves.\<close>

fun render :: "radix \<Rightarrow> manip list \<Rightarrow> tok list" where
  "render b [] = []"
| "render b (S s # ms) = Str s # render b ms"
| "render b (N n # ms) = Num b n # render b ms"
| "render b (SetDec # ms) = render Dec ms"
| "render b (SetHex # ms) = render Hex ms"
| "render b (NewLine # ms) = Endl # render b ms"

fun base_after :: "radix \<Rightarrow> manip list \<Rightarrow> radix" where
  "base_after b [] = b"
| "base_after b (S s # ms) = base_after b ms"
| "base_after b (N n # ms) = base_after b ms"
| "base_after b (SetDec # ms) = base_after Dec ms"
| "base_after b (SetHex # ms) = base_after Hex ms"
| "base_after b (NewLine # ms) = base_after b ms"

definition tab :: string where
  "tab = [CHR 0x09]"

subsection \<open>The external collaborators\<close>

text \<open>
  An \<^verbatim>\<open>llvm::Instruction\<close> as the device sees it: the text \<^verbatim>\<open>dumpInstruction\<close> prints
  and the \<^verbatim>\<open>dbg\<close> metadata (line number and file name), if any.
\<close>

record Instruction =
  dump :: string
  dbg :: "(size_t \<times> string) option"

datatype State = READY | BARRIER | FINISHED

datatype AddressSpace =
  AddrSpacePrivate | AddrSpaceGlobal | AddrSpaceConstant | AddrSpaceLocal | AddrSpaceOther

datatype DataRaceType = ReadWriteRace | WriteWriteRace | OtherRace

text \<open>The four notifications the interpreter and the memory objects send to the device.\<close>

datatype Notification =
    MemoryError bool AddressSpace size_t size_t
  | DataRace DataRaceType AddressSpace size_t size_t size_t "Instruction option"
  | Divergence Instruction string string string
  | Error string string

text \<open>
  A \<^verbatim>\<open>WorkItem\<close>: its ids, its state, and the state of the interpreter for this
  lane, of a type \<open>'c\<close> the device never looks into.
\<close>

record 'c WorkItem =
  getGlobalID :: size3
  getLocalID :: size3
  getState :: State
  core :: 'c

record 'c WorkGroup =
  getGroupID :: size3
  workItems :: "'c WorkItem list"

record Program =
  progId :: nat
  getSource :: string

record FatalError =
  getFile :: string
  getLine :: size_t
  what :: string

text \<open>
  A \<^verbatim>\<open>Kernel\<close>: its name, its program, and whether \<^verbatim>\<open>allocateConstants\<close> throws.
\<close>

record Kernel =
  getName :: string
  getProgram :: Program
  allocateConstants :: "FatalError option"

text \<open>
  The code of the collaborators that is not in \<^verbatim>\<open>Device.cpp\<close> is a parameter of the
  model: \<open>execute\<close> is \<^verbatim>\<open>WorkItem::step\<close> on the interpreter state (the new state of
  the interpreter, the new state of the work-item and the notifications raised
  while the instruction ran), \<open>getCurrentInstruction\<close> is
  \<^verbatim>\<open>WorkItem::getCurrentInstruction\<close>, \<open>newWorkGroup\<close> is the constructor of
  \<^verbatim>\<open>WorkGroup\<close> (work dimension, group coordinates, global offset, global size,
  local size), and \<open>extractSize\<close> is \<^verbatim>\<open>istringstream >> size_t\<close> on one token (the value
  read and \<^verbatim>\<open>eof()\<close> afterwards).
\<close>

record 'c ext =
  execute :: "'c \<Rightarrow> 'c \<times> State \<times> Notification list"
  getCurrentInstruction :: "'c \<Rightarrow> Instruction"
  newWorkGroup :: "nat \<Rightarrow> size3 \<Rightarrow> size3 \<Rightarrow> size3 \<Rightarrow> size3 \<Rightarrow> 'c WorkGroup"
  extractSize :: "string \<Rightarrow> size_t \<times> bool"

subsubsection \<open>WorkGroup\<close>

text \<open>
  Modelled from the spec: \<^verbatim>\<open>WorkGroup.cpp\<close> is not among the sources.
  \<^verbatim>\<open>next_ready_item\<close> returns a Ready item and none when all are Barrier or
  Finished; the order is left open as long as it is reproducible, here the first
  Ready item in the group's order. The result is the position of the item in the group.
\<close>

fun firstReady :: "'c WorkItem list \<Rightarrow> nat option" where
  "firstReady [] = None"
| "firstReady (w # ws) =
     (if getState w = READY then Some 0 else map_option Suc (firstReady ws))"

text \<open>Modelled from the spec: \<^verbatim>\<open>next_ready_item\<close> of a work-group, as above.\<close>

definition getNextWorkItem :: "'c WorkGroup \<Rightarrow> nat option" where
  "getNextWorkItem g = firstReady (workItems g)"

text \<open>Modelled from the spec: \<^verbatim>\<open>has_barrier\<close>, some item of the group waits at a barrier.\<close>

definition hasBarrier :: "'c WorkGroup \<Rightarrow> bool" where
  "hasBarrier g = list_ex (\<lambda>w. getState w = BARRIER) (workItems g)"

text \<open>Modelled from the spec: \<^verbatim>\<open>clear_barrier\<close> flips all Barrier items back to Ready.\<close>

definition clearBarrier :: "'c WorkGroup \<Rightarrow> 'c WorkGroup" where
  "clearBarrier g =
     g\<lparr>workItems :=
         map (\<lambda>w. if getState w = BARRIER then w\<lparr>getState := READY\<rparr> else w) (workItems g)\<rparr>"

text \<open>
  Modelled from the spec: \<^verbatim>\<open>get_work_item(local_id)\<close>, the item of the group with
  that local id (its position), none if the group has no such item.
\<close>

fun findLocal :: "size3 \<Rightarrow> 'c WorkItem list \<Rightarrow> nat option" where
  "findLocal lid [] = None"
| "findLocal lid (w # ws) =
     (if getLocalID w = lid then Some 0 else map_option Suc (findLocal lid ws))"

definition getWorkItem :: "'c WorkGroup \<Rightarrow> size3 \<Rightarrow> nat option" where
  "getWorkItem g lid = findLocal lid (workItems g)"

subsection \<open>The device\<close>

text \<open>
  The member variables of \<^verbatim>\<open>Device\<close>. \<open>m_currentWorkItem\<close> points into the current
  work-group: it is the position of the item there. \<open>m_breakpoints\<close> is the map
  from programs to maps from breakpoint ids to lines, both as association lists,
  the inner one in ascending order of ids as \<^verbatim>\<open>std::map\<close> iterates; the key of
  a program is the successor of its \<open>progId\<close>, the key of the null pointer is 0.
  \<open>lastBreakLine\<close> is the static local variable of \<^verbatim>\<open>cont\<close>. \<open>cin\<close> is the input
  that is left, one list of tokens for each line.
\<close>

record 'c Device =
  m_kernel :: "Kernel option"
  m_program :: "Program option"
  m_nextBreakpoint :: size_t
  m_currentWorkGroup :: "'c WorkGroup option"
  m_currentWorkItem :: "nat option"
  m_showInstCounts :: bool
  m_interactive :: bool
  m_quickMode :: bool
  m_workDim :: nat
  m_globalSize :: size3
  m_globalOffset :: size3
  m_localSize :: size3
  m_numGroups :: size3
  m_pendingGroups :: "size3 list"
  m_runningGroups :: "'c WorkGroup list"
  m_listPosition :: size_t
  m_forceBreak :: bool
  m_running :: bool
  m_breakpoints :: "(nat \<times> (size_t \<times> size_t) list) list"
  m_sourceLines :: "string list"
  lastBreakLine :: size_t
  cerr :: ostream
  cout :: ostream
  cin :: "string list list"

text \<open>
  The constructor, from the three environment variables. The members it leaves
  uninitialised start at zero, false and empty.
\<close>

definition Device_new :: "bool \<Rightarrow> bool \<Rightarrow> bool \<Rightarrow> 'c Device" where
  "Device_new instCounts interactive quick =
     \<lparr>m_kernel = None, m_program = None, m_nextBreakpoint = 1,
      m_currentWorkGroup = None, m_currentWorkItem = None,
      m_showInstCounts = instCounts, m_interactive = interactive, m_quickMode = quick,
      m_workDim = 0, m_globalSize = (0, 0, 0), m_globalOffset = (0, 0, 0),
      m_localSize = (0, 0, 0), m_numGroups = (0, 0, 0),
      m_pendingGroups = [], m_runningGroups = [], m_listPosition = 0,
      m_forceBreak = False, m_running = False, m_breakpoints = [],
      m_sourceLines = [], lastBreakLine = 0,
      cerr = \<lparr>base = Dec, written = []\<rparr>, cout = \<lparr>base = Dec, written = []\<rparr>,
      cin = []\<rparr>"

definition createWorkGroup :: "'c ext \<Rightarrow> 'c Device \<Rightarrow> size3 \<Rightarrow> 'c WorkGroup" where
  "createWorkGroup E d xyz =
     newWorkGroup E (m_workDim d) xyz (m_globalOffset d) (m_globalSize d) (m_localSize d)"

text \<open>
  The work-item \<open>m_currentWorkItem\<close> points to; a position that names no item
  of the current group is the null pointer.
\<close>

definition currentItem :: "'c Device \<Rightarrow> 'c WorkItem option" where
  "currentItem d =
     (case m_currentWorkGroup d of
        None \<Rightarrow> None
      | Some g \<Rightarrow>
          (case m_currentWorkItem d of
             None \<Rightarrow> None
           | Some i \<Rightarrow> if i < length (workItems g) then Some (workItems g ! i) else None))"

definition getLineNumber :: "Instruction \<Rightarrow> size_t" where
  "getLineNumber instruction = (case dbg instruction of Some (line, file) \<Rightarrow> line | None \<Rightarrow> 0)"

definition getCurrentLineNumber :: "'c ext \<Rightarrow> 'c Device \<Rightarrow> size_t" where
  "getCurrentLineNumber E d =
     (case currentItem d of
        None \<Rightarrow> 0
      | Some w \<Rightarrow>
          if getState w = FINISHED then 0
          else getLineNumber (getCurrentInstruction E (core w)))"

subsection \<open>The error router\<close>

text \<open>
  The printing functions are given by the insertions they perform on \<^verbatim>\<open>cerr\<close>,
  in order. \<^verbatim>\<open>printInstruction\<close>: the dumped instruction, then the debug location.
\<close>

definition printInstruction :: "Instruction \<Rightarrow> manip list" where
  "printInstruction instruction =
     [S (dump instruction), NewLine, S tab] @
     (case dbg instruction of
        None \<Rightarrow> [S ''Debugging information not available.'', NewLine]
      | Some (line, file) \<Rightarrow> [S ''At line '', SetDec, N line, S '' of '', S file, NewLine])"

definition printErrorContext :: "'c ext \<Rightarrow> 'c Device \<Rightarrow> manip list" where
  "printErrorContext E d =
     (case currentItem d of
        None \<Rightarrow> []
      | Some w \<Rightarrow>
          (case getGlobalID w of (g0, g1, g2) \<Rightarrow>
          (case getLocalID w of (l0, l1, l2) \<Rightarrow>
             [S (tab @ ''Work-item:  Global(''), SetDec,
              N g0, S '','', N g1, S '','', N g2, S '')'',
              S '' Local('', SetDec, N l0, S '','', N l1, S '','', N l2, S '')'', NewLine]))) @
     (case m_currentWorkGroup d of
        None \<Rightarrow> []
      | Some g \<Rightarrow>
          (case getGroupID g of (g0, g1, g2) \<Rightarrow>
             [S (tab @ ''Work-group: (''), SetDec,
              N g0, S '','', N g1, S '','', N g2, S '')'', NewLine])) @
     (case m_kernel d of
        None \<Rightarrow> []
      | Some k \<Rightarrow> [S (tab @ ''Kernel:     ''), S (getName k), NewLine]) @
     (case currentItem d of
        None \<Rightarrow> []
      | Some w \<Rightarrow> S tab # printInstruction (getCurrentInstruction E (core w)))"

text \<open>
  The \<^verbatim>\<open>switch\<close> on the address space at the head of \<^verbatim>\<open>notifyDataRace\<close> and of
  \<^verbatim>\<open>notifyMemoryError\<close>; the \<^verbatim>\<open>default\<close> case is a failed assertion.
\<close>

fun memType :: "AddressSpace \<Rightarrow> string option" where
  "memType AddrSpacePrivate = Some ''private''"
| "memType AddrSpaceGlobal = Some ''global''"
| "memType AddrSpaceConstant = Some ''constant''"
| "memType AddrSpaceLocal = Some ''local''"
| "memType AddrSpaceOther = None"

fun raceType :: "DataRaceType \<Rightarrow> string" where
  "raceType ReadWriteRace = ''Read-write''"
| "raceType WriteWriteRace = ''Write-write''"
| "raceType OtherRace = ''Unrecognized''"

text \<open>The details of the other entity involved in a race (lines 238-264).\<close>

definition raceEntity :: "'c Device \<Rightarrow> size_t \<Rightarrow> size_t \<Rightarrow> fault + manip list" where
  "raceEntity d lastWorkItem lastWorkGroup =
     (if lastWorkItem \<noteq> - 1 then
        (case race_coords (m_globalSize d) lastWorkItem of
           Inl f \<Rightarrow> Inl f
         | Inr (gx, gy, gz) \<Rightarrow>
             Inr [S (tab @ ''Race occured with work-item (''), SetDec,
                  N gx, S '','', N gy, S '','', N gz, S '')'', NewLine])
      else if lastWorkGroup \<noteq> - 1 then
        (case race_coords (m_numGroups d) lastWorkGroup of
           Inl f \<Rightarrow> Inl f
         | Inr (gx, gy, gz) \<Rightarrow>
             Inr [S (tab @ ''Race occured with work-group (''), SetDec,
                  N gx, S '','', N gy, S '','', N gz, S '')'', NewLine])
      else Inr [S (tab @ ''Race occured with unknown entity''), NewLine])"

definition notifyDataRace ::
  "'c ext \<Rightarrow> DataRaceType \<Rightarrow> AddressSpace \<Rightarrow> size_t \<Rightarrow> size_t \<Rightarrow> size_t \<Rightarrow>
   Instruction option \<Rightarrow> 'c Device \<Rightarrow> fault + 'c Device" where
  "notifyDataRace E ty addrSpace address lastWorkItem lastWorkGroup lastInstruction d =
     (case memType addrSpace of
        None \<Rightarrow> Inl AssertionFailed
      | Some mt \<Rightarrow>
          (case raceEntity d lastWorkItem lastWorkGroup of
             Inl f \<Rightarrow> Inl f
           | Inr entity \<Rightarrow>
               Inr (d\<lparr>cerr :=
                        emit ([NewLine, S (raceType ty), S '' data race'', S '' at '', S mt,
                               S '' memory address '', SetHex, N address, NewLine] @
                              printErrorContext E d @ [NewLine] @
                              entity @
                              (case lastInstruction of
                                 None \<Rightarrow> []
                               | Some i \<Rightarrow> S tab # printInstruction i) @
                              [NewLine])
                          (cerr d),
                      m_forceBreak := True\<rparr>)))"

definition notifyDivergence ::
  "'c ext \<Rightarrow> Instruction \<Rightarrow> string \<Rightarrow> string \<Rightarrow> string \<Rightarrow> 'c Device \<Rightarrow> 'c Device" where
  "notifyDivergence E instruction divergence currentInfo previousInfo d =
     d\<lparr>cerr :=
          emit ([NewLine, S ''Work-group divergence detected ('', S divergence, S ''):'',
                 NewLine] @
                printErrorContext E d @
                (if currentInfo \<noteq> [] then [S tab, S currentInfo, NewLine] else []) @
                [NewLine] @
                [S ''Previous work-items executed this instruction:'', NewLine, S tab] @
                printInstruction instruction @
                (if previousInfo \<noteq> [] then [S tab, S previousInfo, NewLine] else []) @
                [NewLine])
            (cerr d),
        m_forceBreak := True\<rparr>"

definition notifyError :: "'c ext \<Rightarrow> string \<Rightarrow> string \<Rightarrow> 'c Device \<Rightarrow> 'c Device" where
  "notifyError E error info d =
     d\<lparr>cerr :=
          emit ([NewLine, S error, S '':'', NewLine] @
                printErrorContext E d @
                (if info \<noteq> [] then [S tab, S info, NewLine] else []) @
                [NewLine])
            (cerr d),
        m_forceBreak := True\<rparr>"

definition notifyMemoryError ::
  "'c ext \<Rightarrow> bool \<Rightarrow> AddressSpace \<Rightarrow> size_t \<Rightarrow> size_t \<Rightarrow> 'c Device \<Rightarrow> fault + 'c Device" where
  "notifyMemoryError E read addrSpace address sz d =
     (case memType addrSpace of
        None \<Rightarrow> Inl AssertionFailed
      | Some mt \<Rightarrow>
          Inr (d\<lparr>cerr :=
                   emit ([NewLine, S ''Invalid '', S (if read then ''read'' else ''write''),
                          S '' of size '', N sz, S '' at '', S mt,
                          S '' memory address '', SetHex, N address, NewLine] @
                         printErrorContext E d @
                         [NewLine])
                     (cerr d),
                 m_forceBreak := True\<rparr>))"

text \<open>A notification reaches the member function of its kind.\<close>

fun notify :: "'c ext \<Rightarrow> Notification \<Rightarrow> 'c Device \<Rightarrow> fault + 'c Device" where
  "notify E (MemoryError read addrSpace address sz) d =
     notifyMemoryError E read addrSpace address sz d"
| "notify E (DataRace ty addrSpace address lastWorkItem lastWorkGroup lastInstruction) d =
     notifyDataRace E ty addrSpace address lastWorkItem lastWorkGroup lastInstruction d"
| "notify E (Divergence instruction divergence currentInfo previousInfo) d =
     Inr (notifyDivergence E instruction divergence currentInfo previousInfo d)"
| "notify E (Error error info) d = Inr (notifyError E error info d)"

fun notifyAll :: "'c ext \<Rightarrow> Notification list \<Rightarrow> 'c Device \<Rightarrow> fault + 'c Device" where
  "notifyAll E [] d = Inr d"
| "notifyAll E (n # ns) d =
     (case notify E n d of Inl f \<Rightarrow> Inl f | Inr d' \<Rightarrow> notifyAll E ns d')"

subsection \<open>The scheduler\<close>

text \<open>
  \<^verbatim>\<open>nextWorkItem\<close>, lines 136-159: what happens to the current work-group.
  \<open>Inl\<close> is the value returned at once, \<open>Inr\<close> the state that goes on to the
  switch of work-groups.
\<close>

definition leaveWorkGroup :: "'c Device \<Rightarrow> (bool \<times> 'c Device) + 'c Device" where
  "leaveWorkGroup d0 =
     (let d = d0\<lparr>m_currentWorkItem := None\<rparr> in
      case m_currentWorkGroup d of
        None \<Rightarrow> Inr d
      | Some g \<Rightarrow>
          (case getNextWorkItem g of
             Some i \<Rightarrow> Inl (True, d\<lparr>m_currentWorkItem := Some i\<rparr>)
           | None \<Rightarrow>
               if hasBarrier g then
                 let g' = clearBarrier g in
                 Inl (True, d\<lparr>m_currentWorkGroup := Some g',
                               m_currentWorkItem := getNextWorkItem g'\<rparr>)
               else Inr (d\<lparr>m_currentWorkGroup := None\<rparr>)))"

text \<open>
  Lines 161-178: the next work-group, from the running pool, else from the
  pending pool; \<open>None\<close> when both are empty.
\<close>

definition switchWorkGroup :: "'c ext \<Rightarrow> 'c Device \<Rightarrow> ('c WorkGroup \<times> 'c Device) option" where
  "switchWorkGroup E d =
     (case m_runningGroups d of
        g # gs \<Rightarrow> Some (g, d\<lparr>m_currentWorkGroup := Some g, m_runningGroups := gs\<rparr>)
      | [] \<Rightarrow>
          (case m_pendingGroups d of
             pending # ps \<Rightarrow>
               (let g = createWorkGroup E d pending in
                Some (g, d\<lparr>m_pendingGroups := ps, m_currentWorkGroup := Some g\<rparr>))
           | [] \<Rightarrow> None))"

text \<open>The number of work-groups in the two pools: it decreases with every recursive call.\<close>

definition poolSize :: "'c Device \<Rightarrow> nat" where
  "poolSize d = length (m_runningGroups d) + length (m_pendingGroups d)"

function nextWorkItem :: "'c ext \<Rightarrow> 'c Device \<Rightarrow> bool \<times> 'c Device" where
  "nextWorkItem E d =
     (case leaveWorkGroup d of
        Inl r \<Rightarrow> r
      | Inr d1 \<Rightarrow>
          (case switchWorkGroup E d1 of
             None \<Rightarrow> (False, d1)
           | Some (g, d2) \<Rightarrow>
               (case getNextWorkItem g of
                  Some i \<Rightarrow> (True, d2\<lparr>m_currentWorkItem := Some i\<rparr>)
                | None \<Rightarrow> nextWorkItem E d2)))"
  by pat_completeness auto
termination
  by (relation "measure (\<lambda>(E, d). poolSize d)")
     (auto simp: leaveWorkGroup_def switchWorkGroup_def poolSize_def Let_def
           split: option.splits if_splits list.splits)

declare nextWorkItem.simps [simp del]

subsection \<open>Setting up a kernel invocation\<close>

text \<open>
  \<^verbatim>\<open>run\<close>, lines 427-443. The body of the loop reads the caller's arrays at \<open>i\<close>
  and writes the device's arrays at \<open>i\<close>.
\<close>

definition run_setup_body ::
  "nat \<Rightarrow> size_t list \<Rightarrow> size_t list \<Rightarrow> size_t list \<Rightarrow> 'c Device \<Rightarrow> fault + 'c Device" where
  "run_setup_body i globalOffset globalSize localSize d =
     (case deref globalSize i of
        Inl f \<Rightarrow> Inl f
      | Inr gs \<Rightarrow>
     (case upd3 (m_globalSize d) i gs of
        Inl f \<Rightarrow> Inl f
      | Inr gsz \<Rightarrow>
     (case deref globalOffset i of
        Inl f \<Rightarrow> Inl f
      | Inr go \<Rightarrow>
     (case (if go \<noteq> 0 then upd3 (m_globalOffset d) i go else Inr (m_globalOffset d)) of
        Inl f \<Rightarrow> Inl f
      | Inr off \<Rightarrow>
     (case deref localSize i of
        Inl f \<Rightarrow> Inl f
      | Inr ls \<Rightarrow>
     (case (if ls \<noteq> 0 then upd3 (m_localSize d) i ls else Inr (m_localSize d)) of
        Inl f \<Rightarrow> Inl f
      | Inr lsz \<Rightarrow>
          Inr (d\<lparr>m_globalSize := gsz, m_globalOffset := off, m_localSize := lsz\<rparr>)))))))"

function run_setup_loop ::
  "nat \<Rightarrow> nat \<Rightarrow> size_t list \<Rightarrow> size_t list \<Rightarrow> size_t list \<Rightarrow> 'c Device \<Rightarrow> fault + 'c Device" where
  "run_setup_loop i workDim globalOffset globalSize localSize d =
     (if i < workDim then
        (case run_setup_body i globalOffset globalSize localSize d of
           Inl f \<Rightarrow> Inl f
         | Inr d' \<Rightarrow> run_setup_loop (Suc i) workDim globalOffset globalSize localSize d')
      else Inr d)"
  by pat_completeness auto
termination
  by (relation "measure (\<lambda>(i, workDim, go, gs, ls, d). workDim - i)") auto

declare run_setup_loop.simps [simp del]

definition run_setup ::
  "nat \<Rightarrow> size_t list \<Rightarrow> size_t list \<Rightarrow> size_t list \<Rightarrow> 'c Device \<Rightarrow> fault + 'c Device" where
  "run_setup workDim globalOffset globalSize localSize d =
     run_setup_loop 0 workDim globalOffset globalSize localSize
       (d\<lparr>m_workDim := workDim, m_globalSize := (1, 1, 1), m_globalOffset := (0, 0, 0),
          m_localSize := (1, 1, 1)\<rparr>)"

text \<open>
  Lines 480-490: the three nested loops over the group coordinates, innermost
  first. Each appends to the pool of pending work-groups.
\<close>

function pending_i :: "size_t \<Rightarrow> size_t \<Rightarrow> size_t \<Rightarrow> size_t \<Rightarrow> size3 list \<Rightarrow> size3 list" where
  "pending_i i n0 j k pool =
     (if i < n0 then pending_i (i + 1) n0 j k (pool @ [(i, j, k)]) else pool)"
  by pat_completeness auto
termination
  by (relation "measure (\<lambda>(i, n0, j, k, pool). unat n0 - unat i)") (simp, simp, unat_arith)

function pending_j :: "size_t \<Rightarrow> size_t \<Rightarrow> size_t \<Rightarrow> size_t \<Rightarrow> size3 list \<Rightarrow> size3 list" where
  "pending_j j n1 n0 k pool =
     (if j < n1 then pending_j (j + 1) n1 n0 k (pending_i 0 n0 j k pool) else pool)"
  by pat_completeness auto
termination
  by (relation "measure (\<lambda>(j, n1, n0, k, pool). unat n1 - unat j)") (simp, simp, unat_arith)

function pending_k :: "size_t \<Rightarrow> size_t \<Rightarrow> size_t \<Rightarrow> size_t \<Rightarrow> size3 list \<Rightarrow> size3 list" where
  "pending_k k n2 n1 n0 pool =
     (if k < n2 then pending_k (k + 1) n2 n1 n0 (pending_j 0 n1 n0 k pool) else pool)"
  by pat_completeness auto
termination
  by (relation "measure (\<lambda>(k, n2, n1, n0, pool). unat n2 - unat k)") (simp, simp, unat_arith)

declare pending_i.simps [simp del] pending_j.simps [simp del] pending_k.simps [simp del]

text \<open>Lines 461-491: the number of groups and the pool of pending work-groups.\<close>

definition run_createPending :: "'c Device \<Rightarrow> fault + 'c Device" where
  "run_createPending d =
     (case m_globalSize d of (g0, g1, g2) \<Rightarrow>
     (case m_localSize d of (l0, l1, l2) \<Rightarrow>
        if l0 = 0 \<or> l1 = 0 \<or> l2 = 0 then Inl DivideByZero
        else
          let n0 = g0 div l0; n1 = g1 div l1; n2 = g2 div l2;
              d1 = d\<lparr>m_numGroups := (n0, n1, n2)\<rparr>
          in if m_quickMode d1 then
               Inr (d1\<lparr>m_pendingGroups :=
                          m_pendingGroups d1 @ [(0, 0, 0)] @ [(n0 - 1, n1 - 1, n2 - 1)]\<rparr>)
             else
               Inr (d1\<lparr>m_pendingGroups := pending_k 0 n2 n1 n0 (m_pendingGroups d1)\<rparr>)))"

subsection \<open>Stepping the current work-item\<close>

text \<open>
  \<^verbatim>\<open>m_currentWorkItem->step()\<close>. The interpreter runs one instruction of the current
  work-item; the notifications it raises reach the error router while the
  instruction is still the current one, then the work-item has its new state.
  Calling through a null pointer is a fault.
\<close>

definition stepItem :: "'c ext \<Rightarrow> 'c Device \<Rightarrow> fault + (State \<times> 'c Device)" where
  "stepItem E d =
     (case m_currentWorkGroup d of
        None \<Rightarrow> Inl NullPointer
      | Some g \<Rightarrow>
          (case m_currentWorkItem d of
             None \<Rightarrow> Inl NullPointer
           | Some i \<Rightarrow>
               if length (workItems g) \<le> i then Inl NullPointer
               else
                 (let w = workItems g ! i in
                  case execute E (core w) of (c, st, notes) \<Rightarrow>
                    (case notifyAll E notes d of
                       Inl f \<Rightarrow> Inl f
                     | Inr d1 \<Rightarrow>
                         Inr (st,
                              d1\<lparr>m_currentWorkGroup :=
                                    Some (g\<lparr>workItems :=
                                              (workItems g)[i := w\<lparr>core := c, getState := st\<rparr>]\<rparr>)\<rparr>)))))"

subsection \<open>Printing the current line\<close>

definition printSourceLine :: "size_t \<Rightarrow> 'c Device \<Rightarrow> 'c Device" where
  "printSourceLine lineNum d =
     (if lineNum \<noteq> 0 \<and> unat lineNum \<le> length (m_sourceLines d) then
        d\<lparr>cout := emit [SetDec, N lineNum, S tab, S (m_sourceLines d ! (unat lineNum - 1)),
                         NewLine] (cout d)\<rparr>
      else
        d\<lparr>cout := emit [S ''Invalid line number: '', N lineNum, NewLine] (cout d)\<rparr>)"

definition printCurrentLine :: "'c ext \<Rightarrow> 'c Device \<Rightarrow> 'c Device" where
  "printCurrentLine E d =
     (case currentItem d of
        None \<Rightarrow> d
      | Some w \<Rightarrow>
          if getState w = FINISHED then d
          else
            (let lineNum = getCurrentLineNumber E d in
             if m_sourceLines d \<noteq> [] \<and> 0 < lineNum then printSourceLine lineNum d
             else
               d\<lparr>cout := emit [S ''Source line not available.'', NewLine,
                                S (dump (getCurrentInstruction E (core w))), NewLine]
                           (cout d)\<rparr>))"

subsection \<open>The step command\<close>

text \<open>
  \<^verbatim>\<open>Device::step()\<close>, lines 724-751. The \<^verbatim>\<open>do\<close> loop may run for ever (a kernel
  that loops within one source line), so it has fuel: \<open>None\<close> is a loop that has
  not ended when the fuel is used up.
\<close>

fun step_loop :: "nat \<Rightarrow> 'c ext \<Rightarrow> size_t \<Rightarrow> 'c Device \<Rightarrow> (fault + 'c Device) option" where
  "step_loop 0 E prevLine d = None"
| "step_loop (Suc n) E prevLine d =
     (case stepItem E d of
        Inl f \<Rightarrow> Some (Inl f)
      | Inr (state, d1) \<Rightarrow>
          if state \<noteq> READY then Some (Inr d1)
          else
            (let currLine = getCurrentLineNumber E d1 in
             if m_sourceLines d1 \<noteq> [] \<and> (currLine = prevLine \<or> currLine = 0)
             then step_loop n E prevLine d1
             else Some (Inr d1)))"

definition step :: "nat \<Rightarrow> 'c ext \<Rightarrow> 'c Device \<Rightarrow> (fault + 'c Device) option" where
  "step fuel E d =
     (case currentItem d of
        None \<Rightarrow> Some (Inl NullPointer)
      | Some w \<Rightarrow>
          if getState w = BARRIER then
            Some (Inr (d\<lparr>cout := emit [S ''Work-item is at a barrier.'', NewLine] (cout d)\<rparr>))
          else if getState w = FINISHED then
            Some (Inr (d\<lparr>cout := emit [S ''Work-item has finished execution.'', NewLine]
                                  (cout d)\<rparr>))
          else step_loop fuel E (getCurrentLineNumber E d) d)"

subsection \<open>The continue command\<close>

text \<open>
  \<^verbatim>\<open>m_breakpoints[m_program]\<close>: the breakpoints of the current program. As
  \<^verbatim>\<open>operator[]\<close> does, the look-up adds an empty entry for a program that has none.
\<close>

definition programBreakpoints :: "'c Device \<Rightarrow> (size_t \<times> size_t) list \<times> 'c Device" where
  "programBreakpoints d =
     (let key = (case m_program d of None \<Rightarrow> 0 | Some p \<Rightarrow> Suc (progId p)) in
      case map_of (m_breakpoints d) key of
        Some bps \<Rightarrow> (bps, d)
      | None \<Rightarrow> ([], d\<lparr>m_breakpoints := m_breakpoints d @ [(key, [])]\<rparr>))"

text \<open>
  The way one iteration of the inner loop of \<^verbatim>\<open>cont\<close> ends: \<^verbatim>\<open>cont\<close> returns, or
  the loop goes on with the value of \<^verbatim>\<open>canBreak\<close>.
\<close>

datatype 'c flow = Return "'c Device" | Next bool "'c Device"

text \<open>Lines 822-871, the body of the inner loop.\<close>

definition cont_body :: "'c ext \<Rightarrow> bool \<Rightarrow> 'c Device \<Rightarrow> fault + 'c flow" where
  "cont_body E canBreak d =
     (case stepItem E d of
        Inl f \<Rightarrow> Inl f
      | Inr (state, d1) \<Rightarrow>
          if \<not> m_interactive d1 then Inr (Next canBreak d1)
          else if m_forceBreak d1 then
            Inr (Return (d1\<lparr>m_listPosition := 0, m_forceBreak := False\<rparr>))
          else if m_breakpoints d1 \<noteq> [] then
            (if \<not> canBreak \<and> getCurrentLineNumber E d1 = lastBreakLine d1 then
               Inr (Next canBreak d1)
             else
               (let line = getCurrentLineNumber E d1 in
                case programBreakpoints d1 of (bps, d2) \<Rightarrow>
                  (case find (\<lambda>(num, l). l = line) bps of
                     None \<Rightarrow> Inr (Next True d2)
                   | Some (num, l) \<Rightarrow>
                       (case currentItem d2 of
                          None \<Rightarrow> Inl NullPointer
                        | Some w \<Rightarrow>
                            (case getGlobalID w of (g0, g1, g2) \<Rightarrow>
                               Inr (Return
                                 ((printCurrentLine E
                                    (d2\<lparr>cout :=
                                          emit [S ''Breakpoint '', N num, S '' hit at line '', N l,
                                                S '' by work-item ('', N g0, S '','', N g1,
                                                S '','', N g2, S '')'', NewLine]
                                            (cout d2)\<rparr>))
                                  \<lparr>lastBreakLine := line, m_listPosition := 0\<rparr>)))))))
          else Inr (Next canBreak d1))"

text \<open>
  Lines 820-872, the inner loop, with fuel. \<open>Next\<close> is the loop left because the
  work-item is no longer ready (or the device no longer running).
\<close>

fun cont_inner :: "nat \<Rightarrow> 'c ext \<Rightarrow> bool \<Rightarrow> 'c Device \<Rightarrow> (fault + 'c flow) option" where
  "cont_inner 0 E canBreak d = None"
| "cont_inner (Suc n) E canBreak d =
     (case currentItem d of
        None \<Rightarrow> Some (Inl NullPointer)
      | Some w \<Rightarrow>
          if getState w = READY \<and> m_running d then
            (case cont_body E canBreak d of
               Inl f \<Rightarrow> Some (Inl f)
             | Inr (Return d') \<Rightarrow> Some (Inr (Return d'))
             | Inr (Next canBreak' d') \<Rightarrow> cont_inner n E canBreak' d')
          else Some (Inr (Next canBreak d)))"

text \<open>Lines 817-876, the outer loop and the assignment that follows it.\<close>

fun cont_outer :: "nat \<Rightarrow> 'c ext \<Rightarrow> bool \<Rightarrow> 'c Device \<Rightarrow> (fault + 'c Device) option" where
  "cont_outer 0 E canBreak d = None"
| "cont_outer (Suc n) E canBreak d =
     (if currentItem d \<noteq> None \<and> m_running d then
        (case cont_inner n E canBreak d of
           None \<Rightarrow> None
         | Some (Inl f) \<Rightarrow> Some (Inl f)
         | Some (Inr (Return d')) \<Rightarrow> Some (Inr d')
         | Some (Inr (Next canBreak' d')) \<Rightarrow>
             cont_outer n E canBreak' (snd (nextWorkItem E d')))
      else Some (Inr (d\<lparr>m_running := False\<rparr>)))"

definition cont :: "nat \<Rightarrow> 'c ext \<Rightarrow> string list \<Rightarrow> 'c Device \<Rightarrow> (fault + 'c Device) option" where
  "cont fuel E args d = cont_outer fuel E False (d\<lparr>m_forceBreak := False, m_running := True\<rparr>)"

subsection \<open>The quit command\<close>

definition quit :: "string list \<Rightarrow> 'c Device \<Rightarrow> 'c Device" where
  "quit args d = d\<lparr>m_interactive := False, m_running := False, m_breakpoints := []\<rparr>"

subsection \<open>The workitem command\<close>

text \<open>
  Lines 1405-1416, one iteration of the loop over the arguments: \<open>Inr None\<close> is
  the early return after \<^verbatim>\<open>Invalid global ID.\<close>, \<open>Inr (Some gid)\<close> the array after
  the assignment to \<^verbatim>\<open>gid[i-1]\<close>.
\<close>

definition workitem_arg ::
  "'c ext \<Rightarrow> 'c Device \<Rightarrow> string list \<Rightarrow> nat \<Rightarrow> size3 \<Rightarrow> fault + size3 option" where
  "workitem_arg E d args i gid =
     (case extractSize E (args ! i) of (v, eof) \<Rightarrow>
        (case upd3 gid (i - 1) v of
           Inl f \<Rightarrow> Inl f
         | Inr gid' \<Rightarrow>
             if \<not> eof then Inr None
             else
               (case at3 gid' (i - 1) of
                  Inl f \<Rightarrow> Inl f
                | Inr a \<Rightarrow>
                    (case at3 (m_globalSize d) (i - 1) of
                       Inl f \<Rightarrow> Inl f
                     | Inr b \<Rightarrow> if b \<le> a then Inr None else Inr (Some gid')))))"

function workitem_args ::
  "'c ext \<Rightarrow> 'c Device \<Rightarrow> string list \<Rightarrow> nat \<Rightarrow> size3 \<Rightarrow> fault + size3 option" where
  "workitem_args E d args i gid =
     (if i < length args then
        (case workitem_arg E d args i gid of
           Inl f \<Rightarrow> Inl f
         | Inr None \<Rightarrow> Inr None
         | Inr (Some gid') \<Rightarrow> workitem_args E d args (Suc i) gid')
      else Inr (Some gid))"
  by pat_completeness auto
termination
  by (relation "measure (\<lambda>(E, d, args, i, gid). length args - i)") auto

declare workitem_args.simps [simp del]

text \<open>
  Lines 1438-1455: the first work-group of the running pool with the group id,
  taken out of the pool.
\<close>

fun takeRunning :: "size3 \<Rightarrow> 'c WorkGroup list \<Rightarrow> ('c WorkGroup \<times> 'c WorkGroup list) option" where
  "takeRunning gr [] = None"
| "takeRunning gr (g # gs) =
     (if getGroupID g = gr then Some (g, gs)
      else map_option (\<lambda>(h, hs). (h, g # hs)) (takeRunning gr gs))"

text \<open>Lines 1457-1474: the first entry of the pending pool with the group id, erased.\<close>

fun takePending :: "size3 \<Rightarrow> size3 list \<Rightarrow> size3 list option" where
  "takePending gr [] = None"
| "takePending gr (p # ps) =
     (if p = gr then Some ps else map_option (\<lambda>qs. p # qs) (takePending gr ps))"

text \<open>
  Lines 1426-1485. The result is none when the group is found nowhere. The
  pointers \<^verbatim>\<open>previousWorkGroup\<close> and \<^verbatim>\<open>m_currentWorkGroup\<close> differ exactly when the
  group came out of one of the two pools.
\<close>

definition locateWorkGroup ::
  "'c ext \<Rightarrow> size3 \<Rightarrow> 'c WorkGroup \<Rightarrow> 'c Device \<Rightarrow> 'c Device option" where
  "locateWorkGroup E gr previousWorkGroup d =
     (if getGroupID previousWorkGroup = gr then Some d
      else
        (case takeRunning gr (m_runningGroups d) of
           Some (g, rest) \<Rightarrow>
             Some (d\<lparr>m_currentWorkGroup := Some g,
                     m_runningGroups := rest @ [previousWorkGroup]\<rparr>)
         | None \<Rightarrow>
             (case takePending gr (m_pendingGroups d) of
                Some rest \<Rightarrow>
                  Some (d\<lparr>m_currentWorkGroup := Some (createWorkGroup E d gr),
                          m_pendingGroups := rest,
                          m_runningGroups := m_runningGroups d @ [previousWorkGroup]\<rparr>)
              | None \<Rightarrow> None)))"

definition workitem :: "'c ext \<Rightarrow> string list \<Rightarrow> 'c Device \<Rightarrow> fault + 'c Device" where
  "workitem E args d =
     (case workitem_args E d args 1 (0, 0, 0) of
        Inl f \<Rightarrow> Inl f
      | Inr None \<Rightarrow> Inr (d\<lparr>cout := emit [S ''Invalid global ID.'', NewLine] (cout d)\<rparr>)
      | Inr (Some (g0, g1, g2)) \<Rightarrow>
          (case m_localSize d of (l0, l1, l2) \<Rightarrow>
             if l0 = 0 \<or> l1 = 0 \<or> l2 = 0 then Inl DivideByZero
             else
               (case m_currentWorkGroup d of
                  None \<Rightarrow> Inl NullPointer
                | Some previousWorkGroup \<Rightarrow>
                    (case locateWorkGroup E (g0 div l0, g1 div l1, g2 div l2)
                            previousWorkGroup d of
                       None \<Rightarrow>
                         Inr (d\<lparr>cout :=
                                  emit [S ''Work-item has already finished, unable to load state.'',
                                        NewLine] (cout d)\<rparr>)
                     | Some d1 \<Rightarrow>
                         (case m_currentWorkGroup d1 of
                            None \<Rightarrow> Inl NullPointer
                          | Some g \<Rightarrow>
                              (let d2 = d1\<lparr>m_currentWorkItem :=
                                              getWorkItem g (g0 mod l0, g1 mod l1, g2 mod l2),
                                            cout :=
                                              emit [S ''Switched to work-item: ('', N g0, S '','',
                                                    N g1, S '','', N g2, S '')'', NewLine]
                                                (cout d1)\<rparr>
                               in case currentItem d2 of
                                    None \<Rightarrow> Inl NullPointer
                                  | Some w \<Rightarrow>
                                      if getState w = FINISHED then
                                        Inr (d2\<lparr>cout :=
                                                 emit [S ''Work-item has finished execution.'',
                                                       NewLine] (cout d2)\<rparr>)
                                      else Inr (printCurrentLine E d2)))))))"

subsection \<open>The info command\<close>

definition quote :: string where
  "quote = [CHR 0x27]"

definition info :: "'c ext \<Rightarrow> string list \<Rightarrow> 'c Device \<Rightarrow> fault + 'c Device" where
  "info E args d =
     (if 1 < length args then
        (if args ! 1 = ''break'' then
           (case programBreakpoints d of (bps, d1) \<Rightarrow>
              Inr (d1\<lparr>cout :=
                       emit (concat (map (\<lambda>(num, l). [S ''Breakpoint '', N num, S '': Line '',
                                                       N l, NewLine]) bps))
                         (cout d1)\<rparr>))
         else
           Inr (d\<lparr>cout := emit [S ''Invalid info command: '', S (args ! 1), NewLine] (cout d)\<rparr>))
      else
        (case m_kernel d of
           None \<Rightarrow> Inl NullPointer
         | Some k \<Rightarrow>
             (case m_globalSize d of (g0, g1, g2) \<Rightarrow>
             (case m_globalOffset d of (o0, o1, o2) \<Rightarrow>
             (case m_localSize d of (l0, l1, l2) \<Rightarrow>
                (let d1 = d\<lparr>cout :=
                              emit [S (''Running kernel '' @ quote), S (getName k), S quote, NewLine,
                                    S ''-> Global work size:   ('', N g0, S '','', N g1, S '','',
                                    N g2, S '')'', NewLine,
                                    S ''-> Global work offset: ('', N o0, S '','', N o1, S '','',
                                    N o2, S '')'', NewLine,
                                    S ''-> Local work size:    ('', N l0, S '','', N l1, S '','',
                                    N l2, S '')'', NewLine]
                                (cout d)\<rparr>
                 in case currentItem d1 of
                      None \<Rightarrow>
                        Inr (d1\<lparr>cout := emit [S ''All work-items finished.'', NewLine] (cout d1)\<rparr>)
                    | Some w \<Rightarrow>
                        (case getGlobalID w of (i0, i1, i2) \<Rightarrow>
                           Inr (printCurrentLine E
                                  (d1\<lparr>cout :=
                                        emit [NewLine, S ''Current work-item: ('', N i0, S '','',
                                              N i1, S '','', N i2, S '')'', NewLine]
                                          (cout d1)\<rparr>)))))))))"

subsection \<open>Running a kernel\<close>

text \<open>Lines 510-521: the source of the program, split into lines as \<^verbatim>\<open>getline\<close> does.\<close>

fun getlines :: "string \<Rightarrow> string \<Rightarrow> string list" where
  "getlines line [] = (if line = [] then [] else [line])"
| "getlines line (c # cs) =
     (if c = CHR 0x0A then line # getlines [] cs else getlines (line @ [c]) cs)"

text \<open>
  A command handler: the arguments, the device, and the device afterwards,
  \<open>None\<close> if the handler does not return. \<^verbatim>\<open>m_commands\<close>, the table from names to
  handlers, is a parameter of the debugging loop.
\<close>

type_synonym 'c command = "string list \<Rightarrow> 'c Device \<Rightarrow> (fault + 'c Device) option"

text \<open>
  Lines 533-591, the interactive debugging loop, with fuel. A line of input is
  read as its list of tokens; the end of the input is the end of \<open>cin\<close>.
\<close>

fun run_loop ::
  "nat \<Rightarrow> (string \<Rightarrow> 'c command option) \<Rightarrow> 'c Device \<Rightarrow> (fault + 'c Device) option" where
  "run_loop 0 commands d = None"
| "run_loop (Suc n) commands d =
     (if m_running d then
        (let d1 = d\<lparr>cout := emit [S ''(oclgrind) ''] (cout d)\<rparr> in
         case cin d1 of
           [] \<Rightarrow> Some (Inr (quit [] (d1\<lparr>cout := emit [S ''(quit)'', NewLine] (cout d1)\<rparr>)))
         | tokens # rest \<Rightarrow>
             (let d2 = d1\<lparr>cin := rest\<rparr> in
              case tokens of
                [] \<Rightarrow> run_loop n commands d2
              | name # args \<Rightarrow>
                  (case commands name of
                     Some handler \<Rightarrow>
                       (case handler tokens d2 of
                          None \<Rightarrow> None
                        | Some (Inl f) \<Rightarrow> Some (Inl f)
                        | Some (Inr d3) \<Rightarrow> run_loop n commands d3)
                   | None \<Rightarrow>
                       run_loop n commands
                         (d2\<lparr>cout := emit [S (''Unrecognized command '' @ quote), S name,
                                           S quote, NewLine] (cout d2)\<rparr>))))
      else Some (Inr d))"

text \<open>Lines 602-618: the remaining work-groups are destroyed.\<close>

fun destroyRunning :: "'c WorkGroup list \<Rightarrow> 'c WorkGroup list" where
  "destroyRunning [] = []"
| "destroyRunning (g # gs) = destroyRunning gs"

definition run_teardown :: "'c Device \<Rightarrow> 'c Device" where
  "run_teardown d =
     d\<lparr>m_runningGroups := destroyRunning (m_runningGroups d),
       m_currentWorkGroup := None, m_kernel := None\<rparr>"

text \<open>Lines 493-531: the first work-item, then the start of the interactive or the plain run.\<close>

definition run_start ::
  "nat \<Rightarrow> 'c ext \<Rightarrow> Kernel \<Rightarrow> 'c Device \<Rightarrow> (fault + 'c Device) option" where
  "run_start fuel E k d =
     (let d1 = snd (nextWorkItem E
                 (d\<lparr>m_program := Some (getProgram k), m_kernel := Some k,
                    m_listPosition := 0, m_currentWorkGroup := None,
                    m_currentWorkItem := None\<rparr>))
      in if m_interactive d1 then
           Some (info E []
                   (d1\<lparr>m_running := True,
                       m_sourceLines := getlines [] (getSource (getProgram k)),
                       cout := emit [NewLine] (cout d1)\<rparr>))
         else
           (case cont fuel E [] d1 of
              None \<Rightarrow> None
            | Some (Inl f) \<Rightarrow> Some (Inl f)
            | Some (Inr d2) \<Rightarrow> Some (Inr (d2\<lparr>m_running := False\<rparr>))))"

text \<open>
  \<^verbatim>\<open>run\<close>, up to the report of the instruction counts. The interpreter of the
  model throws no \<^verbatim>\<open>FatalError\<close>; the one \<^verbatim>\<open>allocateConstants\<close> may throw ends the
  run before any work-group is created.
\<close>

definition run ::
  "nat \<Rightarrow> 'c ext \<Rightarrow> (string \<Rightarrow> 'c command option) \<Rightarrow> Kernel \<Rightarrow> nat \<Rightarrow>
   size_t list \<Rightarrow> size_t list \<Rightarrow> size_t list \<Rightarrow> 'c Device \<Rightarrow> (fault + 'c Device) option" where
  "run fuel E commands k workDim globalOffset globalSize localSize d =
     (if m_runningGroups d \<noteq> [] then Some (Inl AssertionFailed)
      else
        (case run_setup workDim globalOffset globalSize localSize d of
           Inl f \<Rightarrow> Some (Inl f)
         | Inr d1 \<Rightarrow>
             (case allocateConstants k of
                Some err \<Rightarrow>
                  Some (Inr (d1\<lparr>cerr :=
                                 emit [NewLine, S ''OCLGRIND FATAL ERROR '', S ''('',
                                       S (getFile err), S '':'', N (getLine err), S '')'',
                                       NewLine, S (what err),
                                       NewLine, S (''When allocating kernel constants for '' @ quote),
                                       S (getName k), S quote, NewLine]
                                   (cerr d1)\<rparr>))
              | None \<Rightarrow>
                  (case run_createPending d1 of
                     Inl f \<Rightarrow> Some (Inl f)
                   | Inr d2 \<Rightarrow>
                       (case run_start fuel E k d2 of
                          None \<Rightarrow> None
                        | Some (Inl f) \<Rightarrow> Some (Inl f)
                        | Some (Inr d3) \<Rightarrow>
                            (case run_loop fuel commands d3 of
                               None \<Rightarrow> None
                             | Some (Inl f) \<Rightarrow> Some (Inl f)
                             | Some (Inr d4) \<Rightarrow> Some (Inr (run_teardown d4))))))))"

subsection \<open>The table of commands\<close>

text \<open>
  \<^verbatim>\<open>m_commands\<close> as the constructor fills it (lines 57-74), for the handlers that
  are part of this model: \<^verbatim>\<open>continue\<close>, \<^verbatim>\<open>info\<close>, \<^verbatim>\<open>quit\<close> and \<^verbatim>\<open>workitem\<close>, each
  under its long and its short name. The other handlers of the source
  (\<^verbatim>\<open>backtrace\<close>, \<^verbatim>\<open>break\<close>, \<^verbatim>\<open>delete\<close>, the memory commands, \<^verbatim>\<open>help\<close>,
  \<^verbatim>\<open>list\<close>, \<^verbatim>\<open>next\<close>, \<^verbatim>\<open>print\<close>, \<^verbatim>\<open>step\<close> with its printing) have no entry here.
\<close>

definition m_commands :: "nat \<Rightarrow> 'c ext \<Rightarrow> string \<Rightarrow> 'c command option" where
  "m_commands fuel E name =
     (if name = ''continue'' \<or> name = ''c'' then Some (cont fuel E)
      else if name = ''info'' \<or> name = ''i'' then Some (\<lambda>args d. Some (info E args d))
      else if name = ''quit'' \<or> name = ''q'' then Some (\<lambda>args d. Some (Inr (quit args d)))
      else if name = ''workitem'' \<or> name = ''wi'' then Some (\<lambda>args d. Some (workitem E args d))
      else None)"

subsection \<open>The cursor after a successful scheduling step\<close>


subsection \<open>The line step as the specification words it\<close>

text \<open>
  Modelled from the spec: the loop of the \<^verbatim>\<open>step\<close> command in the words of the
  specification, \<^verbatim>\<open>WorkItem.step\<close> issued repeatedly while the item remains Ready
  and (no source is loaded, or the new line equals the previous line, or the new
  line is 0). It is compared with \<open>step_loop\<close>, which is the loop of the source.
\<close>

fun spec_step_loop :: "nat \<Rightarrow> 'c ext \<Rightarrow> size_t \<Rightarrow> 'c Device \<Rightarrow> (fault + 'c Device) option" where
  "spec_step_loop 0 E prevLine d = None"
| "spec_step_loop (Suc n) E prevLine d =
     (case stepItem E d of
        Inl f \<Rightarrow> Some (Inl f)
      | Inr (state, d1) \<Rightarrow>
          if state = READY \<and>
             (m_sourceLines d1 = [] \<or> getCurrentLineNumber E d1 = prevLine
              \<or> getCurrentLineNumber E d1 = 0)
          then spec_step_loop n E prevLine d1
          else Some (Inr d1))"

text \<open>
  The state and the device after \<open>k + 1\<close> calls of \<^verbatim>\<open>WorkItem::step\<close> on the current
  work-item, and the condition under which the loop of the source goes round again.
\<close>

fun stepItems :: "nat \<Rightarrow> 'c ext \<Rightarrow> 'c Device \<Rightarrow> fault + (State \<times> 'c Device)" where
  "stepItems 0 E d = stepItem E d"
| "stepItems (Suc k) E d =
     (case stepItem E d of Inl f \<Rightarrow> Inl f | Inr (state, d1) \<Rightarrow> stepItems k E d1)"

definition stepsOn :: "'c ext \<Rightarrow> size_t \<Rightarrow> State \<times> 'c Device \<Rightarrow> bool" where
  "stepsOn E prevLine r =
     (case r of (state, d1) \<Rightarrow>
        state = READY \<and> m_sourceLines d1 \<noteq> [] \<and>
        (getCurrentLineNumber E d1 = prevLine \<or> getCurrentLineNumber E d1 = 0))"

subsection \<open>The order of enumeration the specification names\<close>

text \<open>
  The values \<open>0, 1, \<dots>, n - 1\<close> a loop counter of type \<^verbatim>\<open>size_t\<close> takes below \<open>n\<close>,
  and the group coordinates below \<open>(n0, n1, n2)\<close> in \<open>z\<close>-outer, \<open>y\<close>-middle,
  \<open>x\<close>-inner order: the lexicographic order of \<open>(z, y, x)\<close>.
\<close>

definition counter_values :: "size_t \<Rightarrow> size_t list" where
  "counter_values n = map word_of_nat [0..<unat n]"

definition zyx_order :: "size_t \<Rightarrow> size_t \<Rightarrow> size_t \<Rightarrow> size3 list" where
  "zyx_order n0 n1 n2 =
     map (\<lambda>(k, j, i). (i, j, k))
       (List.product (counter_values n2) (List.product (counter_values n1) (counter_values n0)))"

subsection \<open>Example invocations\<close>

text \<open>
  An interpreter for the examples. The state of a lane is the list of the
  instructions it has still to run, the current one first. Running the last
  instruction finishes the work-item, running an instruction that dumps as
  \<open>barrier\<close> leaves it at a barrier, and an instruction that dumps as \<open>load\<close> is
  an invalid read of 4 bytes at global address \<open>0x10\<close>.
\<close>

type_synonym script = "Instruction list"

fun script_execute :: "script \<Rightarrow> script \<times> State \<times> Notification list" where
  "script_execute [] = ([], FINISHED, [])"
| "script_execute (i # rest) =
     (rest,
      if rest = [] then FINISHED else if dump i = ''barrier'' then BARRIER else READY,
      if dump i = ''load'' then [MemoryError True AddrSpaceGlobal 0x10 4] else [])"

definition script_instruction :: "script \<Rightarrow> Instruction" where
  "script_instruction c = (case c of [] \<Rightarrow> \<lparr>dump = ''ret'', dbg = None\<rparr> | i # rest \<Rightarrow> i)"

text \<open>
  A work-group of the examples: one work-item for each local id, the first
  component running fastest, each with the same script. The constructor of
  \<^verbatim>\<open>WorkGroup\<close> receives the global offset (lines 84-86): the global id of a
  work-item is its local id plus the group id times the local size plus the
  global offset, as OpenCL defines it.
\<close>

definition script_group ::
  "script \<Rightarrow> nat \<Rightarrow> size3 \<Rightarrow> size3 \<Rightarrow> size3 \<Rightarrow> size3 \<Rightarrow> script WorkGroup" where
  "script_group prog workDim xyz off gsz lsz =
     (case xyz of (x, y, z) \<Rightarrow>
     (case off of (o0, o1, o2) \<Rightarrow>
     (case lsz of (l0, l1, l2) \<Rightarrow>
        \<lparr>getGroupID = xyz,
         workItems =
           map (\<lambda>(i, j, k).
                  \<lparr>getGlobalID = (i + x * l0 + o0, j + y * l1 + o1, k + z * l2 + o2),
                   getLocalID = (i, j, k), getState = READY, core = prog\<rparr>)
               (zyx_order l0 l1 l2)\<rparr>)))"

text \<open>Reading an unsigned decimal number: the value of the leading digits and whether the token ended there.\<close>

fun position :: "char \<Rightarrow> string \<Rightarrow> nat \<Rightarrow> nat option" where
  "position c [] n = None"
| "position c (x # xs) n = (if c = x then Some n else position c xs (Suc n))"

definition digit :: "char \<Rightarrow> nat option" where
  "digit c = position c ''0123456789'' 0"

fun decimal :: "nat \<Rightarrow> string \<Rightarrow> size_t \<times> bool" where
  "decimal acc [] = (word_of_nat acc, True)"
| "decimal acc (c # cs) =
     (case digit c of None \<Rightarrow> (word_of_nat acc, False) | Some v \<Rightarrow> decimal (10 * acc + v) cs)"

definition script_ext :: "script \<Rightarrow> script ext" where
  "script_ext prog =
     \<lparr>execute = script_execute, getCurrentInstruction = script_instruction,
      newWorkGroup = script_group prog, extractSize = decimal 0\<rparr>"

text \<open>A device fresh from the constructor, with no environment variable set.\<close>

definition dev0 :: "script Device" where
  "dev0 = Device_new False False False"


text \<open>
  The first concrete scenario of the specification: global size \<open>(4,2,1)\<close>, local
  size \<open>(2,1,1)\<close>; and an invocation with a single work-group in quick mode.
\<close>

definition dev_4_2_1 :: "script Device" where
  "dev_4_2_1 = dev0\<lparr>m_workDim := 2, m_globalSize := (4, 2, 1), m_localSize := (2, 1, 1)\<rparr>"

definition dev_quick_1 :: "script Device" where
  "dev_quick_1 =
     (Device_new False False True)
       \<lparr>m_workDim := 1, m_globalSize := (1, 1, 1), m_localSize := (1, 1, 1)\<rparr>"


text \<open>
  A one-dimensional invocation of four work-items in two work-groups, with the
  first group current: waiting at a barrier, or finished with the second group
  pending, or finished with nothing left.
\<close>

definition prog_ret :: script where
  "prog_ret = [\<lparr>dump = ''ret'', dbg = Some (4, ''kernel.cl'')\<rparr>]"

definition item_at :: "State \<Rightarrow> size_t \<Rightarrow> script \<Rightarrow> script WorkItem" where
  "item_at st x prog = \<lparr>getGlobalID = (x, 0, 0), getLocalID = (x, 0, 0), getState = st, core = prog\<rparr>"

definition dev_1d :: "script Device" where
  "dev_1d = dev0\<lparr>m_workDim := 1, m_globalSize := (4, 1, 1), m_localSize := (2, 1, 1),
                 m_numGroups := (2, 1, 1)\<rparr>"

definition grp_barrier :: "script WorkGroup" where
  "grp_barrier =
     \<lparr>getGroupID = (0, 0, 0),
      workItems = [item_at FINISHED 0 [], item_at BARRIER 1 prog_ret]\<rparr>"


definition dev_at_barrier :: "script Device" where
  "dev_at_barrier = dev_1d\<lparr>m_currentWorkGroup := Some grp_barrier\<rparr>"




text \<open>
  A work-item ready to run three instructions, two of line 1 and one of line 2,
  with no source loaded and with a source of two lines.
\<close>

definition prog_lines :: script where
  "prog_lines =
     [\<lparr>dump = ''mul'', dbg = Some (1, ''kernel.cl'')\<rparr>,
      \<lparr>dump = ''add'', dbg = Some (1, ''kernel.cl'')\<rparr>,
      \<lparr>dump = ''ret'', dbg = Some (2, ''kernel.cl'')\<rparr>]"

definition one_item :: "State \<Rightarrow> script \<Rightarrow> script WorkGroup" where
  "one_item st prog = \<lparr>getGroupID = (0, 0, 0), workItems = [item_at st 0 prog]\<rparr>"

definition dev_no_source :: "script Device" where
  "dev_no_source =
     dev0\<lparr>m_workDim := 1, m_globalSize := (1, 1, 1), m_localSize := (1, 1, 1),
          m_numGroups := (1, 1, 1),
          m_currentWorkGroup := Some (one_item READY prog_lines),
          m_currentWorkItem := Some 0, m_interactive := True, m_running := True\<rparr>"

definition dev_source :: "script Device" where
  "dev_source = dev_no_source\<lparr>m_sourceLines := [''x = a * b + c;'', ''return;'']\<rparr>"


text \<open>
  A kernel of two source lines, and an interactive device whose input is the
  single command \<^verbatim>\<open>quit\<close>.
\<close>

definition kernel_lines :: Kernel where
  "kernel_lines =
     \<lparr>getName = ''k'',
      getProgram = \<lparr>progId = 0, getSource = ''x = a * b + c;'' @ [CHR 0x0A] @ ''return;''\<rparr>,
      allocateConstants = None\<rparr>"

definition dev_quit :: "script Device" where
  "dev_quit = (Device_new False True False)\<lparr>cin := [''quit''] # []\<rparr>"


definition dev_source_quit :: "script Device" where
  "dev_source_quit = dev_source\<lparr>cin := [''quit''] # []\<rparr>"








text \<open>
  An interactive device whose input is the three commands \<^verbatim>\<open>workitem 3\<close>,
  \<^verbatim>\<open>info\<close> and \<^verbatim>\<open>quit\<close>.
\<close>

definition dev_offset_cmds :: "script Device" where
  "dev_offset_cmds =
     (Device_new False True False)
       \<lparr>cin := [''workitem'', ''3''] # [''info''] # [''quit''] # []\<rparr>"

section \<open>Properties\<close>

text \<open>
  C1. Round trip of the race decoder: for every linear id \<open>I\<close> below the product of
  the global size, decoding with \<open>race_coords\<close> and re-linearising in row-major
  order should give \<open>I\<close> back. It does not: with global size \<open>(2,2,1)\<close> the id
  \<open>3 < 4\<close> is decoded to \<open>(1,1,1)\<close>, whose third component is not even below the
  third size, and \<open>(1,1,1)\<close> re-linearises to \<open>7\<close>.
\<close>

theorem race_coords_roundtrip_fails:
  "(3 :: size_t) < 2 * 2 * 1
   \<and> race_coords (2, 2, 1) 3 = Inr (1, 1, 1)
   \<and> row_major_index (2, 2, 1) (1, 1, 1) = 7
   \<and> (case race_coords (2, 2, 1) 3 of
         Inr g \<Rightarrow> row_major_index (2, 2, 1) g \<noteq> 3 | Inl e \<Rightarrow> False)"
  by (simp add: race_coords_def row_major_index_def)

subsection \<open>The sizes after set-up\<close>

lemma at3_upd3:
  "upd3 t i v = Inr t' \<Longrightarrow> i < 3 \<and> at3 t' j = (if j = i then Inr v else at3 t j)"
  by (cases t) (auto split: if_splits)

lemma run_setup_body_sizes:
  assumes "run_setup_body i go gs ls d = Inr d'"
  shows "i < 3 \<and> i < length gs \<and> i < length ls
     \<and> at3 (m_globalSize d') j = (if j = i then Inr (gs ! i) else at3 (m_globalSize d) j)
     \<and> at3 (m_localSize d') j =
         (if j = i \<and> ls ! i \<noteq> 0 then Inr (ls ! i) else at3 (m_localSize d) j)"
  using assms unfolding run_setup_body_def deref_def
  by (auto split: sum.splits if_splits simp del: upd3.simps at3.simps
           dest!: at3_upd3 [where j = j])

lemma run_setup_loop_sizes:
  "run_setup_loop i workDim go gs ls d = Inr d' \<Longrightarrow>
     (workDim \<le> 3 \<or> workDim \<le> i)
     \<and> at3 (m_globalSize d') j =
         (if i \<le> j \<and> j < workDim then Inr (gs ! j) else at3 (m_globalSize d) j)
     \<and> at3 (m_localSize d') j =
         (if i \<le> j \<and> j < workDim \<and> ls ! j \<noteq> 0 then Inr (ls ! j)
          else at3 (m_localSize d) j)"
proof (induction i workDim go gs ls d rule: run_setup_loop.induct)
  case (1 i workDim go gs ls d)
  show ?case
  proof (cases "i < workDim")
    case False
    with "1.prems" show ?thesis by (auto simp: run_setup_loop.simps [of i])
  next
    case True
    with "1.prems" obtain d1 where b: "run_setup_body i go gs ls d = Inr d1"
      and l: "run_setup_loop (Suc i) workDim go gs ls d1 = Inr d'"
      by (auto simp: run_setup_loop.simps [of i] split: sum.splits)
    note ih = "1.IH" [OF True b l]
    note bs = run_setup_body_sizes [OF b, of j]
    from ih bs True show ?thesis
      by (auto simp: not_less_eq_eq le_Suc_eq)
  qed
qed

text \<open>
  C9, as the code has it. When the set-up phase of \<^verbatim>\<open>run\<close> succeeds, the work
  dimension is at most 3 and every component of the stored local size is at least
  1: a component outside the work dimension stays 1, and a zero passed within the
  work dimension leaves the 1 in place. The three divisions that compute the
  number of groups therefore never divide by zero. The stored global size holds
  the caller's component, zero included, within the work dimension, and 1 outside.
\<close>

theorem run_setup_sizes:
  assumes "run_setup workDim go gs ls d = Inr d'"
  shows "workDim \<le> 3
    \<and> (\<forall>j<3. at3 (m_localSize d') j =
                 Inr (if j < workDim \<and> ls ! j \<noteq> 0 then ls ! j else 1))
    \<and> (\<forall>j<3. at3 (m_localSize d') j \<noteq> Inr 0)
    \<and> (\<exists>d''. run_createPending d' = Inr d'')
    \<and> (\<forall>j<3. at3 (m_globalSize d') j = Inr (if j < workDim then gs ! j else 1))"
proof -
  let ?d0 = "d\<lparr>m_workDim := workDim, m_globalSize := (1, 1, 1), m_globalOffset := (0, 0, 0),
                m_localSize := (1, 1, 1)\<rparr>"
  from assms have l: "run_setup_loop 0 workDim go gs ls ?d0 = Inr d'"
    by (simp add: run_setup_def)
  have wd: "workDim \<le> 3"
    using run_setup_loop_sizes [OF l, of 0] by auto
  have loc: "at3 (m_localSize d') j = Inr (if j < workDim \<and> ls ! j \<noteq> 0 then ls ! j else 1)"
    if "j < 3" for j
    using run_setup_loop_sizes [OF l, of j] that by (auto simp: less_Suc_eq numeral_3_eq_3)
  have glob: "at3 (m_globalSize d') j = Inr (if j < workDim then gs ! j else 1)"
    if "j < 3" for j
    using run_setup_loop_sizes [OF l, of j] that by (auto simp: less_Suc_eq numeral_3_eq_3)
  have nz: "at3 (m_localSize d') j \<noteq> Inr 0" if "j < 3" for j
    using loc [OF that] by auto
  obtain l0 l1 l2 where L: "m_localSize d' = (l0, l1, l2)"
    by (cases "m_localSize d'") auto
  from nz [of 0] nz [of 1] nz [of 2] L have "l0 \<noteq> 0" "l1 \<noteq> 0" "l2 \<noteq> 0"
    by auto
  with L have "\<exists>d''. run_createPending d' = Inr d''"
    by (simp add: run_createPending_def Let_def split: prod.splits)
  with wd loc glob nz show ?thesis by blast
qed

theorem run_setup_sizes_witness:
  "run_setup 2 [0, 0] [4, 2] [2, 0] dev0 =
     Inr (dev0\<lparr>m_workDim := 2, m_globalSize := (4, 2, 1), m_globalOffset := (0, 0, 0),
                m_localSize := (2, 1, 1)\<rparr>)
   \<and> at3 (2, 1, 1) 0 \<noteq> Inr 0 \<and> at3 (2, 1, 1) 1 \<noteq> Inr 0 \<and> at3 (2, 1, 1) 2 \<noteq> Inr 0"
proof -
  have r: "run_setup 2 [0, 0] [4, 2] [2, 0] dev0 =
     Inr (dev0\<lparr>m_workDim := 2, m_globalSize := (4, 2, 1), m_globalOffset := (0, 0, 0),
                m_localSize := (2, 1, 1)\<rparr>)"
    by (simp add: run_setup_def run_setup_loop.simps run_setup_body_def deref_def
                  dev0_def Device_new_def)
  from run_setup_sizes [OF r] show ?thesis using r by simp
qed

text \<open>
  C9, as the specification states it, also gives the stored global size a lower
  bound of 1. A
  global size of zero in the first dimension is stored as it is.
\<close>

theorem run_setup_global_size_zero:
  "(case run_setup 1 [0] [0] [0] dev0 of
      Inr d' \<Rightarrow> m_globalSize d' = (0, 1, 1) \<and> m_localSize d' = (1, 1, 1)
    | Inl f \<Rightarrow> False)"
  by (simp add: run_setup_def run_setup_loop.simps run_setup_body_def deref_def
                dev0_def Device_new_def)

subsection \<open>The pool of pending work-groups\<close>

lemma size_t_inc_nonzero: "(i :: size_t) < n \<Longrightarrow> i + 1 \<noteq> 0"
  by unat_arith

lemma unat_size_t_inc: "(i :: size_t) < n \<Longrightarrow> unat (i + 1) = Suc (unat i)"
  using unatSuc [of i] size_t_inc_nonzero [of i n] by (simp add: add.commute)

lemma pending_i_eq:
  "i \<le> n0 \<Longrightarrow>
   pending_i i n0 j k pool = pool @ map (\<lambda>x. (word_of_nat x, j, k)) [unat i..<unat n0]"
proof (induction i n0 j k pool rule: pending_i.induct)
  case (1 i n0 j k pool)
  show ?case
  proof (cases "i < n0")
    case False
    with "1.prems" have "i = n0" by simp
    then show ?thesis by (subst pending_i.simps) simp
  next
    case True
    then have le: "i + 1 \<le> n0" by (rule inc_le)
    have u: "unat i < unat n0" using True by (simp add: word_less_nat_alt)
    have "pending_i i n0 j k pool = pending_i (i + 1) n0 j k (pool @ [(i, j, k)])"
      using True by (simp add: pending_i.simps [of i])
    also have "\<dots> = (pool @ [(i, j, k)]) @ map (\<lambda>x. (word_of_nat x, j, k)) [unat (i + 1)..<unat n0]"
      by (rule "1.IH" [OF True le])
    also have "\<dots> = pool @ map (\<lambda>x. (word_of_nat x, j, k)) [unat i..<unat n0]"
      using u by (simp add: unat_size_t_inc [OF True] upt_conv_Cons)
    finally show ?thesis .
  qed
qed

lemma pending_j_eq:
  "j \<le> n1 \<Longrightarrow>
   pending_j j n1 n0 k pool =
     pool @ concat (map (\<lambda>y. map (\<lambda>x. (word_of_nat x, word_of_nat y, k)) [0..<unat n0])
                        [unat j..<unat n1])"
proof (induction j n1 n0 k pool rule: pending_j.induct)
  case (1 j n1 n0 k pool)
  show ?case
  proof (cases "j < n1")
    case False
    with "1.prems" have "j = n1" by simp
    then show ?thesis by (subst pending_j.simps) simp
  next
    case True
    then have le: "j + 1 \<le> n1" by (rule inc_le)
    have u: "unat j < unat n1" using True by (simp add: word_less_nat_alt)
    have "pending_j j n1 n0 k pool = pending_j (j + 1) n1 n0 k (pending_i 0 n0 j k pool)"
      using True by (simp add: pending_j.simps [of j])
    also have "\<dots> = pending_i 0 n0 j k pool @
        concat (map (\<lambda>y. map (\<lambda>x. (word_of_nat x, word_of_nat y, k)) [0..<unat n0])
                    [unat (j + 1)..<unat n1])"
      by (rule "1.IH" [OF True le])
    also have "\<dots> = pool @ concat (map (\<lambda>y. map (\<lambda>x. (word_of_nat x, word_of_nat y, k)) [0..<unat n0])
                        [unat j..<unat n1])"
      using u by (simp add: pending_i_eq unat_size_t_inc [OF True] upt_conv_Cons)
    finally show ?thesis .
  qed
qed

lemma pending_k_eq:
  "k \<le> n2 \<Longrightarrow>
   pending_k k n2 n1 n0 pool =
     pool @ concat (map (\<lambda>z. concat (map (\<lambda>y. map (\<lambda>x. (word_of_nat x, word_of_nat y, word_of_nat z))
                                                 [0..<unat n0]) [0..<unat n1]))
                        [unat k..<unat n2])"
proof (induction k n2 n1 n0 pool rule: pending_k.induct)
  case (1 k n2 n1 n0 pool)
  show ?case
  proof (cases "k < n2")
    case False
    with "1.prems" have "k = n2" by simp
    then show ?thesis by (subst pending_k.simps) simp
  next
    case True
    then have le: "k + 1 \<le> n2" by (rule inc_le)
    have u: "unat k < unat n2" using True by (simp add: word_less_nat_alt)
    have "pending_k k n2 n1 n0 pool = pending_k (k + 1) n2 n1 n0 (pending_j 0 n1 n0 k pool)"
      using True by (simp add: pending_k.simps [of k])
    also have "\<dots> = pending_j 0 n1 n0 k pool @
        concat (map (\<lambda>z. concat (map (\<lambda>y. map (\<lambda>x. (word_of_nat x, word_of_nat y, word_of_nat z))
                                                 [0..<unat n0]) [0..<unat n1]))
                    [unat (k + 1)..<unat n2])"
      by (rule "1.IH" [OF True le])
    also have "\<dots> = pool @ concat (map (\<lambda>z. concat (map (\<lambda>y. map (\<lambda>x. (word_of_nat x, word_of_nat y, word_of_nat z))
                                                 [0..<unat n0]) [0..<unat n1]))
                        [unat k..<unat n2])"
      using u by (simp add: pending_j_eq unat_size_t_inc [OF True] upt_conv_Cons)
    finally show ?thesis .
  qed
qed

lemma pending_k_zyx: "pending_k 0 n2 n1 n0 pool = pool @ zyx_order n0 n1 n2"
  by (simp add: pending_k_eq zyx_order_def counter_values_def product_concat_map
        map_concat comp_def)

lemma unat_size_t_bound: "unat (n :: size_t) < 2 ^ 64"
  using unsigned_less [of n] by simp

lemma distinct_counter_values: "distinct (counter_values n)"
proof -
  have "{0..<unat n} \<subseteq> {0..<2 ^ LENGTH(64)}"
    using unat_size_t_bound [of n] by auto
  then have "inj_on (word_of_nat :: nat \<Rightarrow> size_t) {0..<unat n}"
    by (rule inj_on_subset [OF inj_on_word_of_nat])
  then show ?thesis
    by (simp add: counter_values_def distinct_map)
qed

lemma set_counter_values: "set (counter_values n) = {i. i < n}"
proof (rule set_eqI)
  fix i :: size_t
  show "i \<in> set (counter_values n) \<longleftrightarrow> i \<in> {i. i < n}"
  proof
    assume "i \<in> set (counter_values n)"
    then obtain x where x: "x < unat n" and i: "i = word_of_nat x"
      by (auto simp: counter_values_def)
    from x have "x < 2 ^ LENGTH(64)"
      using unat_size_t_bound [of n] by simp
    then have "unat i = x"
      using i by (simp add: of_nat_inverse)
    with x show "i \<in> {i. i < n}"
      by (simp add: word_less_nat_alt)
  next
    assume "i \<in> {i. i < n}"
    then have "unat i < unat n" by (simp add: word_less_nat_alt)
    then have "word_of_nat (unat i) \<in> set (counter_values n)"
      unfolding counter_values_def by (simp del: of_nat_unat)
    then show "i \<in> set (counter_values n)" by simp
  qed
qed

lemma distinct_zyx_order: "distinct (zyx_order n0 n1 n2)"
  unfolding zyx_order_def
  by (rule distinct_map [THEN iffD2])
     (auto simp: distinct_product distinct_counter_values inj_on_def)

lemma set_zyx_order: "set (zyx_order n0 n1 n2) = {(i, j, k). i < n0 \<and> j < n1 \<and> k < n2}"
  by (force simp: zyx_order_def set_counter_values image_iff)

text \<open>
  C3. In quick mode \<^verbatim>\<open>run\<close> appends exactly two pending work-groups, \<open>(0,0,0)\<close>
  first and \<open>(num_groups[0]-1, num_groups[1]-1, num_groups[2]-1)\<close> second, also when
  the two coincide. Otherwise it appends every group \<open>(i,j,k)\<close> with
  \<open>i < num_groups[0]\<close>, \<open>j < num_groups[1]\<close>, \<open>k < num_groups[2]\<close> exactly once, in
  \<open>z\<close>-outer, \<open>y\<close>-middle, \<open>x\<close>-inner order. The number of groups is the global
  size divided by the local size.
\<close>

theorem run_createPending_pool:
  assumes "run_createPending d = Inr d'"
  shows "\<exists>n0 n1 n2. m_numGroups d' = (n0, n1, n2)
     \<and> (case m_globalSize d of (g0, g1, g2) \<Rightarrow>
         (case m_localSize d of (l0, l1, l2) \<Rightarrow>
            n0 = g0 div l0 \<and> n1 = g1 div l1 \<and> n2 = g2 div l2))
     \<and> (m_quickMode d \<longrightarrow>
          m_pendingGroups d' = m_pendingGroups d @ [(0, 0, 0), (n0 - 1, n1 - 1, n2 - 1)])
     \<and> (\<not> m_quickMode d \<longrightarrow>
          m_pendingGroups d' = m_pendingGroups d @ zyx_order n0 n1 n2
          \<and> distinct (zyx_order n0 n1 n2)
          \<and> set (zyx_order n0 n1 n2) = {(i, j, k). i < n0 \<and> j < n1 \<and> k < n2})"
  using assms
  by (auto simp: run_createPending_def Let_def pending_k_zyx distinct_zyx_order set_zyx_order
           split: prod.splits if_splits)

theorem run_createPending_pool_witness:
  "(\<exists>d'. run_createPending dev_4_2_1 = Inr d'
        \<and> m_pendingGroups d' = [(0, 0, 0), (1, 0, 0), (0, 1, 0), (1, 1, 0)])
   \<and> (\<exists>d'. run_createPending dev_quick_1 = Inr d'
        \<and> m_pendingGroups d' = [(0, 0, 0), (0, 0, 0)])"
proof -
  have "\<exists>d'. run_createPending dev_4_2_1 = Inr d'"
    by (simp add: run_createPending_def dev_4_2_1_def dev0_def Device_new_def Let_def)
  then obtain d1 where r1: "run_createPending dev_4_2_1 = Inr d1" ..
  have q1: "\<not> m_quickMode dev_4_2_1" "m_pendingGroups dev_4_2_1 = []"
    "m_globalSize dev_4_2_1 = (4, 2, 1)" "m_localSize dev_4_2_1 = (2, 1, 1)"
    by (simp_all add: dev_4_2_1_def dev0_def Device_new_def)
  have z: "zyx_order 2 2 1 = [(0, 0, 0), (1, 0, 0), (0, 1, 0), (1, 1, 0)]"
    by (simp add: zyx_order_def counter_values_def upt_conv_Cons)
  from run_createPending_pool [OF r1] q1 z
  have p1: "m_pendingGroups d1 = [(0, 0, 0), (1, 0, 0), (0, 1, 0), (1, 1, 0)]"
    by auto
  have "\<exists>d'. run_createPending dev_quick_1 = Inr d'"
    by (simp add: run_createPending_def dev_quick_1_def Device_new_def Let_def)
  then obtain d2 where r2: "run_createPending dev_quick_1 = Inr d2" ..
  have q2: "m_quickMode dev_quick_1" "m_pendingGroups dev_quick_1 = []"
    "m_globalSize dev_quick_1 = (1, 1, 1)" "m_localSize dev_quick_1 = (1, 1, 1)"
    by (simp_all add: dev_quick_1_def Device_new_def)
  from run_createPending_pool [OF r2] q2
  have p2: "m_pendingGroups d2 = [(0, 0, 0), (0, 0, 0)]"
    by auto
  from r1 p1 r2 p2 show ?thesis by blast
qed

subsection \<open>The scheduler\<close>







lemma zyx_order_2_1_1: "zyx_order 2 1 1 = [(0, 0, 0), (1, 0, 0)]"
  by (simp add: zyx_order_def counter_values_def upt_conv_Cons)



subsection \<open>The arguments of the workitem command\<close>

text \<open>
  C10. The loop over the arguments of \<^verbatim>\<open>workitem\<close> should write the three elements
  \<^verbatim>\<open>gid[0..2]\<close> only. It has no bound on the number of arguments: with three
  global-id components the loop ends with the id parsed, and with a fourth the
  next iteration writes \<^verbatim>\<open>gid[3]\<close>, outside the array.
\<close>

theorem workitem_fourth_argument:
  "workitem_args (script_ext prog_ret) dev_at_barrier [''workitem'', ''0'', ''0'', ''0''] 1 (0, 0, 0)
     = Inr (Some (0, 0, 0))
   \<and> workitem_args (script_ext prog_ret) dev_at_barrier
         [''workitem'', ''0'', ''0'', ''0'', ''0''] 1 (0, 0, 0)
     = Inl OutOfBounds
   \<and> workitem (script_ext prog_ret) [''workitem'', ''0'', ''0'', ''0'', ''0''] dev_at_barrier
     = Inl OutOfBounds"
  by (simp add: workitem_def workitem_args.simps workitem_arg_def script_ext_def digit_def
                dev_at_barrier_def dev_1d_def dev0_def Device_new_def)

subsection \<open>The step command\<close>

lemma notify_sourceLines: "notify E n d = Inr d' \<Longrightarrow> m_sourceLines d' = m_sourceLines d"
  by (cases n)
     (auto simp: notifyMemoryError_def notifyDataRace_def notifyDivergence_def notifyError_def
           split: option.splits sum.splits)

lemma notifyAll_sourceLines: "notifyAll E ns d = Inr d' \<Longrightarrow> m_sourceLines d' = m_sourceLines d"
  by (induction ns arbitrary: d) (auto split: sum.splits dest: notify_sourceLines)

lemma stepItem_sourceLines:
  "stepItem E d = Inr (st, d1) \<Longrightarrow> m_sourceLines d1 = m_sourceLines d"
  by (auto simp: stepItem_def Let_def split: option.splits if_splits prod.splits sum.splits
           dest: notifyAll_sourceLines)

lemma step_loop_iff:
  "step_loop n E prevLine d = Some (Inr d') \<longleftrightarrow>
     (\<exists>k<n. \<exists>state. stepItems k E d = Inr (state, d') \<and> \<not> stepsOn E prevLine (state, d')
        \<and> (\<forall>j<k. \<exists>r. stepItems j E d = Inr r \<and> stepsOn E prevLine r))"
proof (induction n arbitrary: d)
  case 0
  show ?case by simp
next
  case (Suc n)
  show ?case
  proof (cases "stepItem E d")
    case (Inl f)
    have "\<And>k. stepItems k E d = Inl f" subgoal for k by (cases k) (simp_all add: Inl) done
    with Inl show ?thesis by simp
  next
    case (Inr r)
    obtain st d1 where r: "r = (st, d1)" by (cases r)
    have later: "\<And>k. stepItems (Suc k) E d = stepItems k E d1" by (simp add: Inr r)
    show ?thesis
    proof (cases "stepsOn E prevLine (st, d1)")
      case False
      have "(\<exists>k<Suc n. \<exists>state. stepItems k E d = Inr (state, d') \<and> \<not> stepsOn E prevLine (state, d')
        \<and> (\<forall>j<k. \<exists>r. stepItems j E d = Inr r \<and> stepsOn E prevLine r)) \<longleftrightarrow> d' = d1"
      proof
        assume "\<exists>k<Suc n. \<exists>state. stepItems k E d = Inr (state, d') \<and> \<not> stepsOn E prevLine (state, d')
        \<and> (\<forall>j<k. \<exists>r. stepItems j E d = Inr r \<and> stepsOn E prevLine r)"
        then obtain k state where k: "stepItems k E d = Inr (state, d')"
          and all: "\<forall>j<k. \<exists>r. stepItems j E d = Inr r \<and> stepsOn E prevLine r" by blast
        have "k = 0"
        proof (rule ccontr)
          assume "k \<noteq> 0"
          then have "0 < k" by simp
          with all have "\<exists>r. stepItems 0 E d = Inr r \<and> stepsOn E prevLine r" by blast
          with Inr r False show False by simp
        qed
        with k Inr r show "d' = d1" by simp
      next
        assume "d' = d1"
        with Inr r False show "\<exists>k<Suc n. \<exists>state. stepItems k E d = Inr (state, d') \<and> \<not> stepsOn E prevLine (state, d')
        \<and> (\<forall>j<k. \<exists>r. stepItems j E d = Inr r \<and> stepsOn E prevLine r)"
          by (intro exI [of _ 0]) auto
      qed
      moreover have "step_loop (Suc n) E prevLine d = Some (Inr d1)"
        using Inr r False by (auto simp: stepsOn_def Let_def)
      ultimately show ?thesis by auto
    next
      case True
      have l: "step_loop (Suc n) E prevLine d = step_loop n E prevLine d1"
        using Inr r True by (auto simp: stepsOn_def Let_def)
      have "(\<exists>k<Suc n. \<exists>state. stepItems k E d = Inr (state, d') \<and> \<not> stepsOn E prevLine (state, d')
        \<and> (\<forall>j<k. \<exists>r. stepItems j E d = Inr r \<and> stepsOn E prevLine r)) \<longleftrightarrow>
         (\<exists>k<n. \<exists>state. stepItems k E d1 = Inr (state, d') \<and> \<not> stepsOn E prevLine (state, d')
        \<and> (\<forall>j<k. \<exists>r. stepItems j E d1 = Inr r \<and> stepsOn E prevLine r))" (is "?L \<longleftrightarrow> ?R")
      proof
        assume ?L
        then obtain k state where kn: "k < Suc n" and k: "stepItems k E d = Inr (state, d')"
          and stop: "\<not> stepsOn E prevLine (state, d')"
          and all: "\<forall>j<k. \<exists>r. stepItems j E d = Inr r \<and> stepsOn E prevLine r" by blast
        have "k \<noteq> 0"
        proof
          assume "k = 0"
          with k Inr r have "state = st" "d' = d1" by simp_all
          with stop True show False by simp
        qed
        then obtain k' where k': "k = Suc k'" by (cases k) auto
        have "\<forall>j<k'. \<exists>r. stepItems j E d1 = Inr r \<and> stepsOn E prevLine r"
        proof (intro allI impI)
          fix j assume "j < k'"
          then have "Suc j < k" using k' by simp
          with all have "\<exists>r. stepItems (Suc j) E d = Inr r \<and> stepsOn E prevLine r" by blast
          then show "\<exists>r. stepItems j E d1 = Inr r \<and> stepsOn E prevLine r" unfolding later .
        qed
        moreover have "stepItems k' E d1 = Inr (state, d')" using k unfolding k' later .
        ultimately show ?R using kn k' stop by (intro exI [of _ k']) auto
      next
        assume ?R
        then obtain k state where kn: "k < n" and k: "stepItems k E d1 = Inr (state, d')"
          and stop: "\<not> stepsOn E prevLine (state, d')"
          and all: "\<forall>j<k. \<exists>r. stepItems j E d1 = Inr r \<and> stepsOn E prevLine r" by blast
        have "\<forall>j<Suc k. \<exists>r. stepItems j E d = Inr r \<and> stepsOn E prevLine r"
        proof (intro allI impI)
          fix j assume j: "j < Suc k"
          show "\<exists>r. stepItems j E d = Inr r \<and> stepsOn E prevLine r"
          proof (cases j)
            case 0
            with Inr r True show ?thesis by simp
          next
            case (Suc j')
            with j have "j' < k" by simp
            with all have "\<exists>r. stepItems j' E d1 = Inr r \<and> stepsOn E prevLine r" by blast
            then show ?thesis unfolding Suc later .
          qed
        qed
        moreover have "stepItems (Suc k) E d = Inr (state, d')" using k unfolding later .
        ultimately show ?L using kn stop by (intro exI [of _ "Suc k"]) auto
      qed
      with l Suc.IH [of d1] show ?thesis by simp
    qed
  qed
qed

text \<open>
  C7, as the code has it. For a current work-item in Ready state the \<^verbatim>\<open>step\<close>
  command remembers the previous source line and issues \<^verbatim>\<open>WorkItem::step\<close> once,
  and again while the item remains Ready and source is loaded and the new line
  equals the previous line or is 0. So \<^verbatim>\<open>step\<close> returns the device after the
  first call of \<^verbatim>\<open>WorkItem::step\<close> that leaves the item not Ready, or on a line
  other than 0 and the previous one, or with no source loaded: one source line
  when source is available, exactly one instruction when no source is loaded.
  Enough fuel gives that device.
\<close>

theorem step_line_step:
  assumes "currentItem d = Some w" and "getState w = READY"
  shows "(step n E d = Some (Inr d') \<longleftrightarrow>
           (\<exists>k<n. \<exists>state.
              stepItems k E d = Inr (state, d')
              \<and> \<not> stepsOn E (getCurrentLineNumber E d) (state, d')
              \<and> (\<forall>j<k. \<exists>r. stepItems j E d = Inr r \<and> stepsOn E (getCurrentLineNumber E d) r)))
     \<and> (m_sourceLines d = [] \<longrightarrow>
           step (Suc n) E d =
             (case stepItem E d of Inl f \<Rightarrow> Some (Inl f) | Inr (state, d1) \<Rightarrow> Some (Inr d1)))"
proof -
  from assms have s: "step m E d = step_loop m E (getCurrentLineNumber E d) d" for m
    by (simp add: step_def)
  have "step (Suc n) E d =
          (case stepItem E d of Inl f \<Rightarrow> Some (Inl f) | Inr (state, d1) \<Rightarrow> Some (Inr d1))"
    if "m_sourceLines d = []"
    using that by (auto simp: s Let_def split: sum.splits dest: stepItem_sourceLines)
  then show ?thesis
    by (simp add: s step_loop_iff)
qed

lemma stepItems_no_source:
  "stepItems 0 (script_ext p) dev_no_source =
     Inr (READY, dev_no_source\<lparr>m_currentWorkGroup := Some (one_item READY (tl prog_lines))\<rparr>)"
  by (simp add: stepItem_def script_ext_def dev_no_source_def dev0_def Device_new_def
                one_item_def item_at_def prog_lines_def)

lemma stepItems_source:
  "stepItems 0 (script_ext p) dev_source =
     Inr (READY, dev_source\<lparr>m_currentWorkGroup := Some (one_item READY (tl prog_lines))\<rparr>)"
  "stepItems 1 (script_ext p) dev_source =
     Inr (READY, dev_source\<lparr>m_currentWorkGroup := Some (one_item READY (tl (tl prog_lines)))\<rparr>)"
  by (simp_all add: stepItem_def script_ext_def dev_source_def dev_no_source_def dev0_def
                    Device_new_def one_item_def item_at_def prog_lines_def)

lemma lines_source:
  "getCurrentLineNumber (script_ext p) dev_source = 1"
  "getCurrentLineNumber (script_ext p)
     (dev_source\<lparr>m_currentWorkGroup := Some (one_item READY (tl prog_lines))\<rparr>) = 1"
  "getCurrentLineNumber (script_ext p)
     (dev_source\<lparr>m_currentWorkGroup := Some (one_item READY (tl (tl prog_lines)))\<rparr>) = 2"
  by (simp_all add: getCurrentLineNumber_def currentItem_def getLineNumber_def script_ext_def
                    script_instruction_def dev_source_def dev_no_source_def dev0_def
                    Device_new_def one_item_def item_at_def prog_lines_def)

lemma ready_source:
  "currentItem dev_source = Some (item_at READY 0 prog_lines)"
  "currentItem dev_no_source = Some (item_at READY 0 prog_lines)"
  "m_sourceLines dev_no_source = []"
  by (simp_all add: currentItem_def dev_source_def dev_no_source_def dev0_def Device_new_def
                    one_item_def)

theorem step_line_step_witness:
  "step 5 (script_ext prog_lines) dev_no_source =
     Some (Inr (dev_no_source\<lparr>m_currentWorkGroup := Some (one_item READY (tl prog_lines))\<rparr>))
   \<and> step 5 (script_ext prog_lines) dev_source =
     Some (Inr (dev_source\<lparr>m_currentWorkGroup := Some (one_item READY (tl (tl prog_lines)))\<rparr>))"
proof -
  have st: "getState (item_at READY 0 prog_lines) = READY" by (simp add: item_at_def)
  from step_line_step [OF ready_source(2) st, of 4 "script_ext prog_lines"] ready_source(3)
  have 1: "step 5 (script_ext prog_lines) dev_no_source =
     Some (Inr (dev_no_source\<lparr>m_currentWorkGroup := Some (one_item READY (tl prog_lines))\<rparr>))"
    using stepItems_no_source [of prog_lines] by (simp add: eval_nat_numeral)
  have src: "m_sourceLines dev_source \<noteq> []"
    by (simp add: dev_source_def)
  have a: "stepItems 1 (script_ext prog_lines) dev_source =
       Inr (READY, dev_source\<lparr>m_currentWorkGroup := Some (one_item READY (tl (tl prog_lines)))\<rparr>)"
    by (rule stepItems_source(2))
  have b: "\<not> stepsOn (script_ext prog_lines) (getCurrentLineNumber (script_ext prog_lines) dev_source)
       (READY, dev_source\<lparr>m_currentWorkGroup := Some (one_item READY (tl (tl prog_lines)))\<rparr>)"
    by (simp add: stepsOn_def lines_source)
  have c: "\<forall>j<1. \<exists>r. stepItems j (script_ext prog_lines) dev_source = Inr r
       \<and> stepsOn (script_ext prog_lines) (getCurrentLineNumber (script_ext prog_lines) dev_source) r"
    using stepItems_source(1) [of prog_lines]
    by (simp add: stepsOn_def lines_source src del: stepItems.simps)
  have "(1::nat) < 5" by simp
  with a b c
  have "\<exists>k<5. \<exists>state.
          stepItems k (script_ext prog_lines) dev_source =
            Inr (state, dev_source\<lparr>m_currentWorkGroup := Some (one_item READY (tl (tl prog_lines)))\<rparr>)
          \<and> \<not> stepsOn (script_ext prog_lines) (getCurrentLineNumber (script_ext prog_lines) dev_source)
                (state, dev_source\<lparr>m_currentWorkGroup := Some (one_item READY (tl (tl prog_lines)))\<rparr>)
          \<and> (\<forall>j<k. \<exists>r. stepItems j (script_ext prog_lines) dev_source = Inr r
                \<and> stepsOn (script_ext prog_lines)
                     (getCurrentLineNumber (script_ext prog_lines) dev_source) r)"
    by blast
  with step_line_step [OF ready_source(1) st, of 5 "script_ext prog_lines"]
  have 2: "step 5 (script_ext prog_lines) dev_source =
     Some (Inr (dev_source\<lparr>m_currentWorkGroup := Some (one_item READY (tl (tl prog_lines)))\<rparr>))"
    by blast
  from 1 2 show ?thesis by simp
qed

text \<open>
  C7, as the specification states it, lets the loop go on when no source is
  loaded. With no
  source loaded the \<^verbatim>\<open>step\<close> of the source returns after one instruction, the
  work-item still Ready, where the loop in the words of the specification runs
  the work-item until it has finished.
\<close>

theorem step_no_source_stops_while_ready:
  "step 5 (script_ext prog_lines) dev_no_source =
     Some (Inr (dev_no_source\<lparr>m_currentWorkGroup := Some (one_item READY (tl prog_lines))\<rparr>))
   \<and> spec_step_loop 5 (script_ext prog_lines)
        (getCurrentLineNumber (script_ext prog_lines) dev_no_source) dev_no_source =
     Some (Inr (dev_no_source\<lparr>m_currentWorkGroup := Some (one_item FINISHED [])\<rparr>))"
  by (simp add: step_def eval_nat_numeral stepItem_def currentItem_def getCurrentLineNumber_def
                getLineNumber_def script_ext_def script_instruction_def
                dev_no_source_def dev0_def Device_new_def one_item_def item_at_def prog_lines_def)


subsection \<open>The error router\<close>

lemma foldl_put: "written (foldl put os ms) = written os @ render (base os) ms
    \<and> base (foldl put os ms) = base_after (base os) ms"
proof (induction ms arbitrary: os)
  case Nil
  show ?case by simp
next
  case (Cons m ms)
  show ?case by (cases m) (simp_all add: Cons.IH)
qed

lemma written_emit: "written (emit ms os) = written os @ render (base os) ms"
  by (simp add: emit_def foldl_put)

lemma render_append: "render b (xs @ ys) = render b xs @ render (base_after b xs) ys"
proof (induction xs arbitrary: b)
  case Nil
  show ?case by simp
next
  case (Cons m ms)
  show ?case by (cases m) (simp_all add: Cons.IH)
qed

lemma render_printInstruction: "render b (printInstruction i) = render Dec (printInstruction i)"
  by (simp add: printInstruction_def split: option.splits)

lemma render_printErrorContext:
  "render b (printErrorContext E d) = render Dec (printErrorContext E d)"
  by (simp add: printErrorContext_def render_append render_printInstruction [of b]
           split: option.splits prod.splits)

lemma raceEntity_lines:
  assumes "raceEntity d lastWorkItem lastWorkGroup = Inr entity"
  shows "render b entity \<noteq> [] \<and> last (render b entity) = Endl"
  using assms
  by (auto simp: raceEntity_def split: if_splits sum.splits)

lemma render_printInstruction_tokens:
  "render b (printInstruction i) =
     [Str (dump i), Endl, Str tab] @
     (case dbg i of
        None \<Rightarrow> [Str ''Debugging information not available.'', Endl]
      | Some (line, file) \<Rightarrow> [Str ''At line '', Num Dec line, Str '' of '', Str file, Endl])"
  by (simp add: printInstruction_def split: option.splits)

lemma render_printErrorContext_tokens:
  "render b (printErrorContext E d) =
     (case currentItem d of
        None \<Rightarrow> []
      | Some w \<Rightarrow>
          (case getGlobalID w of (g0, g1, g2) \<Rightarrow>
          (case getLocalID w of (l0, l1, l2) \<Rightarrow>
             [Str (tab @ ''Work-item:  Global(''), Num Dec g0, Str '','', Num Dec g1, Str '','',
              Num Dec g2, Str '')'', Str '' Local('', Num Dec l0, Str '','', Num Dec l1, Str '','',
              Num Dec l2, Str '')'', Endl]))) @
     (case m_currentWorkGroup d of
        None \<Rightarrow> []
      | Some g \<Rightarrow>
          (case getGroupID g of (x, y, z) \<Rightarrow>
             [Str (tab @ ''Work-group: (''), Num Dec x, Str '','', Num Dec y, Str '','',
              Num Dec z, Str '')'', Endl])) @
     (case m_kernel d of
        None \<Rightarrow> []
      | Some k \<Rightarrow> [Str (tab @ ''Kernel:     ''), Str (getName k), Endl]) @
     (case currentItem d of
        None \<Rightarrow> []
      | Some w \<Rightarrow>
          [Str tab, Str (dump (getCurrentInstruction E (core w))), Endl, Str tab] @
          (case dbg (getCurrentInstruction E (core w)) of
             None \<Rightarrow> [Str ''Debugging information not available.'', Endl]
           | Some (line, file) \<Rightarrow>
               [Str ''At line '', Num Dec line, Str '' of '', Str file, Endl]))"
  by (simp add: printErrorContext_def printInstruction_def render_append
           split: option.splits prod.splits)

lemma raceEntity_tokens:
  assumes "raceEntity d lastWorkItem lastWorkGroup = Inr entity"
  shows "(if lastWorkItem \<noteq> - 1 then
            \<exists>gx gy gz. race_coords (m_globalSize d) lastWorkItem = Inr (gx, gy, gz)
              \<and> render b entity =
                  [Str (tab @ ''Race occured with work-item (''), Num Dec gx, Str '','',
                   Num Dec gy, Str '','', Num Dec gz, Str '')'', Endl]
          else if lastWorkGroup \<noteq> - 1 then
            \<exists>gx gy gz. race_coords (m_numGroups d) lastWorkGroup = Inr (gx, gy, gz)
              \<and> render b entity =
                  [Str (tab @ ''Race occured with work-group (''), Num Dec gx, Str '','',
                   Num Dec gy, Str '','', Num Dec gz, Str '')'', Endl]
          else render b entity = [Str (tab @ ''Race occured with unknown entity''), Endl])"
  using assms
  by (auto simp: raceEntity_def split: if_splits sum.splits)

lemma mt_cases:
  "memType a = Some mt \<longleftrightarrow>
     (a, mt) \<in> {(AddrSpacePrivate, ''private''), (AddrSpaceGlobal, ''global''),
                (AddrSpaceConstant, ''constant''), (AddrSpaceLocal, ''local'')}"
  by (cases a) auto

lemma rt_cases:
  "(ty, raceType ty) \<in> {(ReadWriteRace, ''Read-write''), (WriteWriteRace, ''Write-write''),
                (OtherRace, ''Unrecognized'')}"
  by (cases ty) auto


lemma notifyMemoryError_written:
  assumes "notifyMemoryError E read addrSpace address sz d = Inr d'"
  shows "m_forceBreak d' \<and>
     (\<exists>mt. memType addrSpace = Some mt \<and>
        written (cerr d') =
          written (cerr d) @ Endl #
            [Str ''Invalid '', Str (if read then ''read'' else ''write''), Str '' of size '',
             Num (base (cerr d)) sz, Str '' at '', Str mt, Str '' memory address '',
             Num Hex address]
            @ Endl # render Dec (printErrorContext E d) @ [] @ [Endl])"
  using assms
  by (auto simp: notifyMemoryError_def written_emit render_append
                 render_printErrorContext [of Hex] split: option.splits)

lemma notifyError_written:
  "m_forceBreak (notifyError E error msg d) \<and>
     written (cerr (notifyError E error msg d)) =
        written (cerr d) @ Endl # [Str error, Str '':''] @ Endl # render Dec (printErrorContext E d)
          @ (if msg \<noteq> [] then [Str tab, Str msg, Endl] else []) @ [Endl]"
  by (auto simp: notifyError_def written_emit render_append
                 render_printErrorContext [of "base (cerr d)"])

lemma notifyDivergence_written:
  "m_forceBreak (notifyDivergence E instruction divergence currentInfo previousInfo d) \<and>
     written (cerr (notifyDivergence E instruction divergence currentInfo previousInfo d)) =
        written (cerr d) @ Endl #
          [Str ''Work-group divergence detected ('', Str divergence, Str ''):'']
          @ Endl # render Dec (printErrorContext E d)
          @ ((if currentInfo \<noteq> [] then [Str tab, Str currentInfo, Endl] else []) @
             [Endl, Str ''Previous work-items executed this instruction:'', Endl, Str tab] @
             render Dec (printInstruction instruction) @
             (if previousInfo \<noteq> [] then [Str tab, Str previousInfo, Endl] else []))
          @ [Endl]"
  by (auto simp: notifyDivergence_def written_emit render_append
                 render_printErrorContext [of "base (cerr d)"]
                 render_printInstruction [of "base_after (base (cerr d)) (printErrorContext E d)"])

lemma notifyDataRace_written:
  assumes "notifyDataRace E ty addrSpace address lastWorkItem lastWorkGroup lastInstruction d = Inr d'"
  shows "m_forceBreak d' \<and>
     (\<exists>mt entity. memType addrSpace = Some mt
        \<and> raceEntity d lastWorkItem lastWorkGroup = Inr entity
        \<and> written (cerr d') =
          written (cerr d) @ Endl #
            [Str (raceType ty), Str '' data race'', Str '' at '', Str mt,
             Str '' memory address '', Num Hex address]
            @ Endl # render Dec (printErrorContext E d)
            @ (Endl # render Dec entity @
               (case lastInstruction of
                  None \<Rightarrow> []
                | Some i \<Rightarrow> Str tab # render Dec (printInstruction i)))
            @ [Endl])"
proof -
  from assms obtain mt entity where mt: "memType addrSpace = Some mt"
    and en: "raceEntity d lastWorkItem lastWorkGroup = Inr entity"
    by (auto simp: notifyDataRace_def split: option.splits sum.splits)
  let ?b = "base_after Hex (printErrorContext E d)"
  have e: "render ?b entity = render Dec entity"
    using en by (auto simp: raceEntity_def split: if_splits sum.splits)
  have w: "written (cerr d') =
          written (cerr d) @ Endl #
            [Str (raceType ty), Str '' data race'', Str '' at '', Str mt,
             Str '' memory address '', Num Hex address]
            @ Endl # render Dec (printErrorContext E d)
            @ (Endl # render Dec entity @
               (case lastInstruction of
                  None \<Rightarrow> []
                | Some i \<Rightarrow> Str tab # render Dec (printInstruction i)))
            @ [Endl]"
    using assms mt en
    by (auto simp: notifyDataRace_def written_emit render_append e
                   render_printErrorContext [of Hex]
                   render_printInstruction [of "base_after ?b entity"]
             split: option.splits)
  have fb: "m_forceBreak d'" using assms mt en by (auto simp: notifyDataRace_def)
  from mt en w fb show ?thesis by blast
qed

text \<open>
  C5, as the code has it. Every notification of the error router that returns
  (memory error, data race, divergence, generic error) sets \<^verbatim>\<open>m_forceBreak\<close> and
  appends one block to \<^verbatim>\<open>cerr\<close>: an end of line, a header line, the current error
  context, the detail lines, and an empty line. For each kind of notification
  the header and the detail are these.
  \<^item> Memory error: the header is \<^verbatim>\<open>Invalid read\<close> or \<^verbatim>\<open>Invalid write\<close>, \<^verbatim>\<open>of size\<close> with
    the size (in the base the stream is in), \<^verbatim>\<open>at\<close> the name of the address
    space, \<^verbatim>\<open>memory address\<close> with the address in hexadecimal. There is no detail.
  \<^item> Data race: the header is the kind of race (\<^verbatim>\<open>Read-write\<close>, \<^verbatim>\<open>Write-write\<close>,
    \<^verbatim>\<open>Unrecognized\<close>), \<^verbatim>\<open>data race at\<close> the name of the address space, \<^verbatim>\<open>memory address\<close> with
    the address in hexadecimal. The detail is an empty line, the line of the
    other entity (the work-item, else the work-group, with the coordinates
    \<open>race_coords\<close> decodes, in decimal; else \<^verbatim>\<open>unknown entity\<close>) and, when there is a
    conflicting instruction, that instruction.
  \<^item> Divergence: the header is \<^verbatim>\<open>Work-group divergence detected\<close> with the kind of
    divergence. The detail is the line of the current info if it is not empty,
    an empty line, \<^verbatim>\<open>Previous work-items executed this instruction:\<close>, the
    instruction, and the line of the previous info if it is not empty.
  \<^item> Generic error: the header is the error and a colon. The detail is the line
    of the info if it is not empty.

  The context is the line of the current work-item (global and local id), the
  line of the current work-group, the line of the kernel and the current
  instruction, each if there is one, all numbers in decimal; an instruction is
  its dump and the line of its debug location. So the header, which tells the
  notifications apart, comes before the context, and for a memory error nothing
  but the empty line comes after it.
\<close>

theorem notify_block:
  assumes "notify E n d = Inr d'"
  shows "m_forceBreak d' \<and>
     (\<exists>header detail.
        written (cerr d') =
          written (cerr d) @ Endl # header @ Endl # render Dec (printErrorContext E d)
            @ detail @ [Endl]
        \<and> header \<noteq> [] \<and> Endl \<notin> set header
        \<and> (detail \<noteq> [] \<longrightarrow> last detail = Endl)
        \<and> (case n of
              MemoryError read addrSpace address sz \<Rightarrow>
                (\<exists>mt. (addrSpace, mt) \<in>
                         {(AddrSpacePrivate, ''private''), (AddrSpaceGlobal, ''global''),
                          (AddrSpaceConstant, ''constant''), (AddrSpaceLocal, ''local'')}
                   \<and> header =
                       [Str ''Invalid '', Str (if read then ''read'' else ''write''),
                        Str '' of size '', Num (base (cerr d)) sz, Str '' at '', Str mt,
                        Str '' memory address '', Num Hex address])
                \<and> detail = []
            | DataRace ty addrSpace address lastWorkItem lastWorkGroup lastInstruction \<Rightarrow>
                (\<exists>rt mt. (ty, rt) \<in>
                         {(ReadWriteRace, ''Read-write''), (WriteWriteRace, ''Write-write''),
                          (OtherRace, ''Unrecognized'')}
                   \<and> (addrSpace, mt) \<in>
                         {(AddrSpacePrivate, ''private''), (AddrSpaceGlobal, ''global''),
                          (AddrSpaceConstant, ''constant''), (AddrSpaceLocal, ''local'')}
                   \<and> header =
                       [Str rt, Str '' data race'', Str '' at '', Str mt,
                        Str '' memory address '', Num Hex address])
                \<and> (\<exists>entity.
                      detail =
                        Endl # entity @
                        (case lastInstruction of
                           None \<Rightarrow> []
                         | Some i \<Rightarrow> Str tab # render Dec (printInstruction i))
                      \<and> (if lastWorkItem \<noteq> - 1 then
                            \<exists>gx gy gz. race_coords (m_globalSize d) lastWorkItem = Inr (gx, gy, gz)
                              \<and> entity =
                                  [Str (tab @ ''Race occured with work-item (''), Num Dec gx,
                                   Str '','', Num Dec gy, Str '','', Num Dec gz, Str '')'', Endl]
                          else if lastWorkGroup \<noteq> - 1 then
                            \<exists>gx gy gz. race_coords (m_numGroups d) lastWorkGroup = Inr (gx, gy, gz)
                              \<and> entity =
                                  [Str (tab @ ''Race occured with work-group (''), Num Dec gx,
                                   Str '','', Num Dec gy, Str '','', Num Dec gz, Str '')'', Endl]
                          else entity = [Str (tab @ ''Race occured with unknown entity''), Endl]))
            | Divergence instruction divergence currentInfo previousInfo \<Rightarrow>
                header = [Str ''Work-group divergence detected ('', Str divergence, Str ''):'']
                \<and> detail =
                    (if currentInfo \<noteq> [] then [Str tab, Str currentInfo, Endl] else []) @
                    [Endl, Str ''Previous work-items executed this instruction:'', Endl, Str tab] @
                    render Dec (printInstruction instruction) @
                    (if previousInfo \<noteq> [] then [Str tab, Str previousInfo, Endl] else [])
            | Error error msg \<Rightarrow>
                header = [Str error, Str '':'']
                \<and> detail = (if msg \<noteq> [] then [Str tab, Str msg, Endl] else [])))
     \<and> render Dec (printErrorContext E d) =
         (case currentItem d of
            None \<Rightarrow> []
          | Some w \<Rightarrow>
              (case getGlobalID w of (g0, g1, g2) \<Rightarrow>
              (case getLocalID w of (l0, l1, l2) \<Rightarrow>
                 [Str (tab @ ''Work-item:  Global(''), Num Dec g0, Str '','', Num Dec g1,
                  Str '','', Num Dec g2, Str '')'', Str '' Local('', Num Dec l0, Str '','',
                  Num Dec l1, Str '','', Num Dec l2, Str '')'', Endl]))) @
         (case m_currentWorkGroup d of
            None \<Rightarrow> []
          | Some g \<Rightarrow>
              (case getGroupID g of (x, y, z) \<Rightarrow>
                 [Str (tab @ ''Work-group: (''), Num Dec x, Str '','', Num Dec y, Str '','',
                  Num Dec z, Str '')'', Endl])) @
         (case m_kernel d of
            None \<Rightarrow> []
          | Some k \<Rightarrow> [Str (tab @ ''Kernel:     ''), Str (getName k), Endl]) @
         (case currentItem d of
            None \<Rightarrow> []
          | Some w \<Rightarrow> Str tab # render Dec (printInstruction (getCurrentInstruction E (core w))))
     \<and> (\<forall>i. render Dec (printInstruction i) =
           [Str (dump i), Endl, Str tab] @
           (case dbg i of
              None \<Rightarrow> [Str ''Debugging information not available.'', Endl]
            | Some (line, file) \<Rightarrow>
                [Str ''At line '', Num Dec line, Str '' of '', Str file, Endl]))"
proof (intro conjI allI)
  show "m_forceBreak d'"
    using assms
    by (cases n)
       (auto dest: notifyMemoryError_written notifyDataRace_written
             simp: notifyDivergence_def notifyError_def)
  fix i
  show "render Dec (printInstruction i) =
           [Str (dump i), Endl, Str tab] @
           (case dbg i of
              None \<Rightarrow> [Str ''Debugging information not available.'', Endl]
            | Some (line, file) \<Rightarrow>
                [Str ''At line '', Num Dec line, Str '' of '', Str file, Endl])"
    by (rule render_printInstruction_tokens)
next
  show "render Dec (printErrorContext E d) =
         (case currentItem d of
            None \<Rightarrow> []
          | Some w \<Rightarrow>
              (case getGlobalID w of (g0, g1, g2) \<Rightarrow>
              (case getLocalID w of (l0, l1, l2) \<Rightarrow>
                 [Str (tab @ ''Work-item:  Global(''), Num Dec g0, Str '','', Num Dec g1,
                  Str '','', Num Dec g2, Str '')'', Str '' Local('', Num Dec l0, Str '','',
                  Num Dec l1, Str '','', Num Dec l2, Str '')'', Endl]))) @
         (case m_currentWorkGroup d of
            None \<Rightarrow> []
          | Some g \<Rightarrow>
              (case getGroupID g of (x, y, z) \<Rightarrow>
                 [Str (tab @ ''Work-group: (''), Num Dec x, Str '','', Num Dec y, Str '','',
                  Num Dec z, Str '')'', Endl])) @
         (case m_kernel d of
            None \<Rightarrow> []
          | Some k \<Rightarrow> [Str (tab @ ''Kernel:     ''), Str (getName k), Endl]) @
         (case currentItem d of
            None \<Rightarrow> []
          | Some w \<Rightarrow> Str tab # render Dec (printInstruction (getCurrentInstruction E (core w))))"
    by (simp add: render_printErrorContext_tokens render_printInstruction_tokens
             split: option.splits)
next
  let ?ctx = "render Dec (printErrorContext E d)"
  show "\<exists>header detail.
        written (cerr d') = written (cerr d) @ Endl # header @ Endl # ?ctx @ detail @ [Endl]
        \<and> header \<noteq> [] \<and> Endl \<notin> set header
        \<and> (detail \<noteq> [] \<longrightarrow> last detail = Endl)
        \<and> (case n of
              MemoryError read addrSpace address sz \<Rightarrow>
                (\<exists>mt. (addrSpace, mt) \<in>
                         {(AddrSpacePrivate, ''private''), (AddrSpaceGlobal, ''global''),
                          (AddrSpaceConstant, ''constant''), (AddrSpaceLocal, ''local'')}
                   \<and> header =
                       [Str ''Invalid '', Str (if read then ''read'' else ''write''),
                        Str '' of size '', Num (base (cerr d)) sz, Str '' at '', Str mt,
                        Str '' memory address '', Num Hex address])
                \<and> detail = []
            | DataRace ty addrSpace address lastWorkItem lastWorkGroup lastInstruction \<Rightarrow>
                (\<exists>rt mt. (ty, rt) \<in>
                         {(ReadWriteRace, ''Read-write''), (WriteWriteRace, ''Write-write''),
                          (OtherRace, ''Unrecognized'')}
                   \<and> (addrSpace, mt) \<in>
                         {(AddrSpacePrivate, ''private''), (AddrSpaceGlobal, ''global''),
                          (AddrSpaceConstant, ''constant''), (AddrSpaceLocal, ''local'')}
                   \<and> header =
                       [Str rt, Str '' data race'', Str '' at '', Str mt,
                        Str '' memory address '', Num Hex address])
                \<and> (\<exists>entity.
                      detail =
                        Endl # entity @
                        (case lastInstruction of
                           None \<Rightarrow> []
                         | Some i \<Rightarrow> Str tab # render Dec (printInstruction i))
                      \<and> (if lastWorkItem \<noteq> - 1 then
                            \<exists>gx gy gz. race_coords (m_globalSize d) lastWorkItem = Inr (gx, gy, gz)
                              \<and> entity =
                                  [Str (tab @ ''Race occured with work-item (''), Num Dec gx,
                                   Str '','', Num Dec gy, Str '','', Num Dec gz, Str '')'', Endl]
                          else if lastWorkGroup \<noteq> - 1 then
                            \<exists>gx gy gz. race_coords (m_numGroups d) lastWorkGroup = Inr (gx, gy, gz)
                              \<and> entity =
                                  [Str (tab @ ''Race occured with work-group (''), Num Dec gx,
                                   Str '','', Num Dec gy, Str '','', Num Dec gz, Str '')'', Endl]
                          else entity = [Str (tab @ ''Race occured with unknown entity''), Endl]))
            | Divergence instruction divergence currentInfo previousInfo \<Rightarrow>
                header = [Str ''Work-group divergence detected ('', Str divergence, Str ''):'']
                \<and> detail =
                    (if currentInfo \<noteq> [] then [Str tab, Str currentInfo, Endl] else []) @
                    [Endl, Str ''Previous work-items executed this instruction:'', Endl, Str tab] @
                    render Dec (printInstruction instruction) @
                    (if previousInfo \<noteq> [] then [Str tab, Str previousInfo, Endl] else [])
            | Error error msg \<Rightarrow>
                header = [Str error, Str '':'']
                \<and> detail = (if msg \<noteq> [] then [Str tab, Str msg, Endl] else []))"
  proof (cases n)
    case (MemoryError read addrSpace address sz)
    with assms have "notifyMemoryError E read addrSpace address sz d = Inr d'" by simp
    from notifyMemoryError_written [OF this] obtain mt where
      mt: "memType addrSpace = Some mt"
      and w: "written (cerr d') =
          written (cerr d) @ Endl #
            [Str ''Invalid '', Str (if read then ''read'' else ''write''), Str '' of size '',
             Num (base (cerr d)) sz, Str '' at '', Str mt, Str '' memory address '',
             Num Hex address]
            @ Endl # ?ctx @ [] @ [Endl]"
      by blast
    from mt have m: "(addrSpace, mt) \<in>
                         {(AddrSpacePrivate, ''private''), (AddrSpaceGlobal, ''global''),
                          (AddrSpaceConstant, ''constant''), (AddrSpaceLocal, ''local'')}"
      by (simp only: mt_cases)
    show ?thesis
      apply (rule exI [of _ "[Str ''Invalid '', Str (if read then ''read'' else ''write''),
             Str '' of size '', Num (base (cerr d)) sz, Str '' at '', Str mt,
             Str '' memory address '', Num Hex address]"])
      apply (rule exI [of _ "[]"])
      apply (intro conjI)
          apply (rule w)
         apply simp
        apply simp
       apply simp
      apply (simp only: MemoryError Notification.case)
      apply (rule conjI)
       apply (rule exI [of _ mt])
       apply (rule conjI)
        apply (rule m)
       apply (rule refl)
      apply (rule refl)
      done
  next
    case (DataRace ty addrSpace address lastWorkItem lastWorkGroup lastInstruction)
    with assms have
      "notifyDataRace E ty addrSpace address lastWorkItem lastWorkGroup lastInstruction d = Inr d'"
      by simp
    from notifyDataRace_written [OF this] obtain mt entity where
      mt: "memType addrSpace = Some mt"
      and en: "raceEntity d lastWorkItem lastWorkGroup = Inr entity"
      and w: "written (cerr d') =
          written (cerr d) @ Endl #
            [Str (raceType ty), Str '' data race'', Str '' at '', Str mt,
             Str '' memory address '', Num Hex address]
            @ Endl # ?ctx
            @ (Endl # render Dec entity @
               (case lastInstruction of
                  None \<Rightarrow> []
                | Some i \<Rightarrow> Str tab # render Dec (printInstruction i)))
            @ [Endl]"
      by blast
    from mt have m: "(addrSpace, mt) \<in>
                         {(AddrSpacePrivate, ''private''), (AddrSpaceGlobal, ''global''),
                          (AddrSpaceConstant, ''constant''), (AddrSpaceLocal, ''local'')}"
      by (simp only: mt_cases)
    let ?instr = "case lastInstruction of
                  None \<Rightarrow> []
                | Some i \<Rightarrow> Str tab # render Dec (printInstruction i)"
    let ?detail = "Endl # render Dec entity @ ?instr"
    have l: "last ?detail = Endl"
    proof (cases lastInstruction)
      case None
      with raceEntity_lines [OF en, of Dec] show ?thesis by simp
    next
      case (Some i)
      then show ?thesis
        by (simp add: render_printInstruction_tokens split: option.splits)
    qed
    have hd: "\<exists>rt mt'. (ty, rt) \<in>
                         {(ReadWriteRace, ''Read-write''), (WriteWriteRace, ''Write-write''),
                          (OtherRace, ''Unrecognized'')}
                   \<and> (addrSpace, mt') \<in>
                         {(AddrSpacePrivate, ''private''), (AddrSpaceGlobal, ''global''),
                          (AddrSpaceConstant, ''constant''), (AddrSpaceLocal, ''local'')}
                   \<and> [Str (raceType ty), Str '' data race'', Str '' at '', Str mt,
                       Str '' memory address '', Num Hex address] =
                       [Str rt, Str '' data race'', Str '' at '', Str mt',
                        Str '' memory address '', Num Hex address]"
      by (intro exI [of _ "raceType ty"] exI [of _ mt] conjI refl) (rule rt_cases, rule m)
    have dt: "\<exists>entity'.
                      ?detail = Endl # entity' @ ?instr
                      \<and> (if lastWorkItem \<noteq> - 1 then
                            \<exists>gx gy gz. race_coords (m_globalSize d) lastWorkItem = Inr (gx, gy, gz)
                              \<and> entity' =
                                  [Str (tab @ ''Race occured with work-item (''), Num Dec gx,
                                   Str '','', Num Dec gy, Str '','', Num Dec gz, Str '')'', Endl]
                          else if lastWorkGroup \<noteq> - 1 then
                            \<exists>gx gy gz. race_coords (m_numGroups d) lastWorkGroup = Inr (gx, gy, gz)
                              \<and> entity' =
                                  [Str (tab @ ''Race occured with work-group (''), Num Dec gx,
                                   Str '','', Num Dec gy, Str '','', Num Dec gz, Str '')'', Endl]
                          else entity' = [Str (tab @ ''Race occured with unknown entity''), Endl])"
      using raceEntity_tokens [OF en, of Dec]
      by (intro exI [of _ "render Dec entity"] conjI refl)
    show ?thesis
      apply (rule exI [of _ "[Str (raceType ty), Str '' data race'', Str '' at '', Str mt,
             Str '' memory address '', Num Hex address]"])
      apply (rule exI [of _ ?detail])
      apply (intro conjI)
          apply (rule w)
         apply simp
        apply simp
       apply (rule impI)
       apply (rule l)
      apply (simp only: DataRace Notification.case)
      apply (rule conjI)
       apply (rule hd)
      apply (rule dt)
      done
  next
    case (Divergence instruction divergence currentInfo previousInfo)
    with assms have d': "d' = notifyDivergence E instruction divergence currentInfo previousInfo d"
      by simp
    let ?detail = "(if currentInfo \<noteq> [] then [Str tab, Str currentInfo, Endl] else []) @
             [Endl, Str ''Previous work-items executed this instruction:'', Endl, Str tab] @
             render Dec (printInstruction instruction) @
             (if previousInfo \<noteq> [] then [Str tab, Str previousInfo, Endl] else [])"
    have l: "last ?detail = Endl"
      by (simp add: render_printInstruction_tokens split: option.splits)
    show ?thesis
      apply (rule exI [of _ "[Str ''Work-group divergence detected ('', Str divergence, Str ''):'']"])
      apply (rule exI [of _ ?detail])
      apply (intro conjI)
          apply (simp only: d' notifyDivergence_written)
         apply simp
        apply simp
       apply (rule impI)
       apply (rule l)
      apply (simp only: Divergence Notification.case)
      done
  next
    case (Error error msg)
    with assms have d': "d' = notifyError E error msg d" by simp
    show ?thesis
      apply (rule exI [of _ "[Str error, Str '':'']"])
      apply (rule exI [of _ "if msg \<noteq> [] then [Str tab, Str msg, Endl] else []"])
      apply (intro conjI)
          apply (simp only: d' notifyError_written)
         apply simp
        apply simp
       apply simp
      apply (simp only: Error Notification.case)
      done
  qed
qed


lemma cerr_no_source: "cerr dev_no_source = \<lparr>base = Dec, written = []\<rparr>"
  by (simp add: dev_no_source_def dev0_def Device_new_def)

lemma ctx_no_source:
  "render Dec (printErrorContext (script_ext p) dev_no_source) =
     [Str (tab @ ''Work-item:  Global(''), Num Dec 0, Str '','', Num Dec 0, Str '','', Num Dec 0,
      Str '')'', Str '' Local('', Num Dec 0, Str '','', Num Dec 0, Str '','', Num Dec 0, Str '')'',
      Endl,
      Str (tab @ ''Work-group: (''), Num Dec 0, Str '','', Num Dec 0, Str '','', Num Dec 0, Str '')'',
      Endl,
      Str tab, Str ''mul'', Endl, Str tab, Str ''At line '', Num Dec 1, Str '' of '',
      Str ''kernel.cl'', Endl]"
  by (simp add: printErrorContext_def printInstruction_def currentItem_def script_ext_def
                script_instruction_def dev_no_source_def dev0_def Device_new_def one_item_def
                item_at_def prog_lines_def)

theorem notify_block_witness:
  "\<exists>d'. notify (script_ext prog_lines) (MemoryError True AddrSpaceGlobal 0x10 4) dev_no_source = Inr d'
     \<and> m_forceBreak d'
     \<and> written (cerr d') =
          [Endl, Str ''Invalid '', Str ''read'', Str '' of size '', Num Dec 4, Str '' at '',
           Str ''global'', Str '' memory address '', Num Hex 0x10, Endl] @
          render Dec (printErrorContext (script_ext prog_lines) dev_no_source) @ [Endl]"
proof -
  have "\<exists>d'. notify (script_ext prog_lines) (MemoryError True AddrSpaceGlobal 0x10 4) dev_no_source = Inr d'"
    by (simp add: notifyMemoryError_def)
  then obtain d' where
    n: "notify (script_ext prog_lines) (MemoryError True AddrSpaceGlobal 0x10 4) dev_no_source = Inr d'" ..
  from notify_block [OF n] have "m_forceBreak d' \<and> written (cerr d') =
          [Endl, Str ''Invalid '', Str ''read'', Str '' of size '', Num Dec 4, Str '' at '',
           Str ''global'', Str '' memory address '', Num Hex 0x10, Endl] @
          render Dec (printErrorContext (script_ext prog_lines) dev_no_source) @ [Endl]"
    by (auto simp: cerr_no_source)
  with n show ?thesis by blast
qed


text \<open>
  C5, as the specification states it, puts the detail of every notification
  after the context.
  For an invalid read, and for an invalid write, everything that tells the one
  notification from the other is in the line before the context, and the context
  is followed by the empty line alone.
\<close>

theorem notifyMemoryError_detail_first:
  "(case notifyMemoryError (script_ext prog_lines) True AddrSpaceGlobal 0x10 4 dev_no_source of
      Inl f \<Rightarrow> False
    | Inr d' \<Rightarrow>
        written (cerr d') =
          [Endl, Str ''Invalid '', Str ''read'', Str '' of size '', Num Dec 4, Str '' at '',
           Str ''global'', Str '' memory address '', Num Hex 0x10, Endl] @
          render Dec (printErrorContext (script_ext prog_lines) dev_no_source) @ [Endl]
        \<and> render Dec (printErrorContext (script_ext prog_lines) dev_no_source) \<noteq> [])
   \<and> (case notifyMemoryError (script_ext prog_lines) False AddrSpaceLocal 0x20 8 dev_no_source of
      Inl f \<Rightarrow> False
    | Inr d' \<Rightarrow>
        written (cerr d') =
          [Endl, Str ''Invalid '', Str ''write'', Str '' of size '', Num Dec 8, Str '' at '',
           Str ''local'', Str '' memory address '', Num Hex 0x20, Endl] @
          render Dec (printErrorContext (script_ext prog_lines) dev_no_source) @ [Endl])"
  by (simp add: notifyMemoryError_def written_emit render_append render_printErrorContext [of Hex]
                ctx_no_source cerr_no_source)


subsection \<open>The quit command\<close>

text \<open>
  C6, as the code has it. After the \<^verbatim>\<open>quit\<close> command interactive mode is left,
  the device no longer runs and the breakpoints are cleared. The debugging loop
  ends at once and no work-item is stepped: the current work-group, the running
  pool and the pending pool are as they were before the command. The tear-down
  of \<^verbatim>\<open>run\<close> then destroys the current and the running work-groups and leaves the
  pending ones where they are: the current kernel invocation is terminated, as
  the help text of the command says.
\<close>

theorem quit_ends_run:
  assumes "m_running d" and "cin d = (q # args) # rest"
    and "commands q = Some (\<lambda>args d. Some (Inr (quit args d)))"
  shows "\<exists>d'. run_loop (Suc (Suc n)) commands d = Some (Inr d')
     \<and> d' = quit (q # args) (d\<lparr>cout := emit [S ''(oclgrind) ''] (cout d), cin := rest\<rparr>)
     \<and> \<not> m_interactive d' \<and> \<not> m_running d' \<and> m_breakpoints d' = []
     \<and> m_currentWorkGroup d' = m_currentWorkGroup d
     \<and> m_currentWorkItem d' = m_currentWorkItem d
     \<and> m_runningGroups d' = m_runningGroups d
     \<and> m_pendingGroups d' = m_pendingGroups d
     \<and> m_currentWorkGroup (run_teardown d') = None
     \<and> m_runningGroups (run_teardown d') = []
     \<and> m_pendingGroups (run_teardown d') = m_pendingGroups d"
proof -
  have "destroyRunning gs = []" for gs :: "'a WorkGroup list"
    by (induction gs) simp_all
  with assms show ?thesis
    by (simp add: Let_def quit_def run_teardown_def)
qed

theorem quit_ends_run_witness:
  "\<exists>d'. run_loop (Suc (Suc 0)) (m_commands 0 (script_ext prog_lines)) dev_source_quit
           = Some (Inr d')
     \<and> m_currentWorkGroup d' = Some (one_item READY prog_lines)
     \<and> \<not> m_running d' \<and> \<not> m_interactive d'
     \<and> m_currentWorkGroup (run_teardown d') = None"
proof -
  have r: "m_running dev_source_quit"
    and c: "cin dev_source_quit = (''quit'' # []) # []"
    and g: "m_currentWorkGroup dev_source_quit = Some (one_item READY prog_lines)"
    by (simp_all add: dev_source_quit_def dev_source_def dev_no_source_def)
  have q: "m_commands 0 (script_ext prog_lines) ''quit'' = Some (\<lambda>args d. Some (Inr (quit args d)))"
    by (simp add: m_commands_def)
  from quit_ends_run [of dev_source_quit "''quit''" "[]" "[]"
         "m_commands 0 (script_ext prog_lines)" 0, OF r c q] g
  show ?thesis
    by auto
qed

text \<open>
  C6, as the specification states it, has the remaining work-items run to
  completion after
  \<^verbatim>\<open>quit\<close>. In an invocation of two work-groups that is interrupted by \<^verbatim>\<open>quit\<close>
  at the first prompt, \<^verbatim>\<open>run\<close> returns with the second work-group still in the
  pending pool: it was never created, and none of its work-items ran.
\<close>

theorem quit_abandons_pending_group:
  "(case run 3 (script_ext prog_lines) (m_commands 3 (script_ext prog_lines)) kernel_lines
           1 [0] [4] [2] dev_quit of
      Some (Inr d') \<Rightarrow>
        m_pendingGroups d' = [(1, 0, 0)] \<and> m_currentWorkGroup d' = None
        \<and> m_runningGroups d' = [] \<and> \<not> m_running d' \<and> cin d' = []
    | _ \<Rightarrow> False)"
  by (simp add: run_def run_setup_def run_setup_loop.simps run_setup_body_def deref_def
                run_createPending_def pending_k_zyx zyx_order_2_1_1 Let_def
                run_start_def nextWorkItem.simps leaveWorkGroup_def switchWorkGroup_def
                createWorkGroup_def script_ext_def script_group_def getNextWorkItem_def
                info_def printCurrentLine_def printSourceLine_def currentItem_def
                getCurrentLineNumber_def getLineNumber_def script_instruction_def
                numeral_3_eq_3 m_commands_def quit_def run_teardown_def
                kernel_lines_def prog_lines_def dev_quit_def Device_new_def)


subsection \<open>The continue command\<close>









lemma fuel_5: "(5::nat) = Suc (Suc (Suc (Suc (Suc 0))))"
  by (simp add: eval_nat_numeral)








subsection \<open>The workitem command\<close>

lemma findLocal_Some:
  "findLocal lid ws = Some i \<Longrightarrow> i < length ws \<and> getLocalID (ws ! i) = lid"
  by (induction ws arbitrary: i) (auto split: if_splits)

lemma takeRunning_Some:
  "takeRunning gr gs = Some (g, rest) \<Longrightarrow>
     getGroupID g = gr \<and> g \<in> set gs
     \<and> (\<exists>pre post. gs = pre @ g # post \<and> rest = pre @ post
            \<and> (\<forall>h \<in> set pre. getGroupID h \<noteq> gr))"
proof (induction gs arbitrary: rest)
  case Nil
  then show ?case by simp
next
  case (Cons h hs)
  show ?case
  proof (cases "getGroupID h = gr")
    case True
    with Cons.prems have "g = h" "rest = hs" by simp_all
    with True show ?thesis by (auto intro: exI [of _ "[]"])
  next
    case False
    with Cons.prems obtain r where t: "takeRunning gr hs = Some (g, r)" and r: "rest = h # r"
      by auto
    from Cons.IH [OF t] obtain pre post where g: "getGroupID g = gr" "g \<in> set hs"
      and "hs = pre @ g # post" "r = pre @ post" "\<forall>k \<in> set pre. getGroupID k \<noteq> gr"
      by blast
    with False r have "h # hs = (h # pre) @ g # post \<and> rest = (h # pre) @ post
        \<and> (\<forall>k \<in> set (h # pre). getGroupID k \<noteq> gr)"
      by simp
    then have "\<exists>pre post. h # hs = pre @ g # post \<and> rest = pre @ post
        \<and> (\<forall>k \<in> set pre. getGroupID k \<noteq> gr)"
      by blast
    with g show ?thesis by simp
  qed
qed

lemma takeRunning_None:
  "takeRunning gr gs = None \<longleftrightarrow> (\<forall>h \<in> set gs. getGroupID h \<noteq> gr)"
  by (induction gs) auto

lemma takePending_None: "takePending gr ps = None \<longleftrightarrow> gr \<notin> set ps"
  by (induction ps) auto

lemma takePending_Some:
  "takePending gr ps = Some rest \<Longrightarrow>
     \<exists>pre post. ps = pre @ gr # post \<and> rest = pre @ post \<and> gr \<notin> set pre"
proof (induction ps arbitrary: rest)
  case Nil
  then show ?case by simp
next
  case (Cons p ps)
  show ?case
  proof (cases "p = gr")
    case True
    with Cons.prems show ?thesis by (auto intro: exI [of _ "[]"])
  next
    case False
    with Cons.prems obtain r where t: "takePending gr ps = Some r" and r: "rest = p # r"
      by auto
    from Cons.IH [OF t] obtain pre post where "ps = pre @ gr # post" "r = pre @ post" "gr \<notin> set pre"
      by blast
    with False r have "p # ps = (p # pre) @ gr # post \<and> rest = (p # pre) @ post
        \<and> gr \<notin> set (p # pre)"
      by auto
    then show ?thesis by blast
  qed
qed

lemma printSourceLine_cout: "\<exists>c. printSourceLine n d = d\<lparr>cout := c\<rparr>"
  by (auto simp: printSourceLine_def)

lemma printCurrentLine_cout: "\<exists>c. printCurrentLine E d = d\<lparr>cout := c\<rparr>"
proof -
  have "d = d\<lparr>cout := cout d\<rparr>" by simp
  then have n: "\<exists>c. d = d\<lparr>cout := c\<rparr>" ..
  show ?thesis
    using n printSourceLine_cout [of "getCurrentLineNumber E d" d]
    by (auto simp: printCurrentLine_def Let_def split: option.splits)
qed

lemma locateWorkGroup_cases:
  assumes "getGroupID previous = T \<or> (\<exists>g \<in> set (m_runningGroups d). getGroupID g = T)
      \<or> T \<in> set (m_pendingGroups d)"
    and "m_currentWorkGroup d = Some previous"
    and "getGroupID (createWorkGroup E d T) = T"
  shows "\<exists>d1 g. locateWorkGroup E T previous d = Some d1
     \<and> m_currentWorkGroup d1 = Some g \<and> getGroupID g = T
     \<and> (g = previous \<or> g \<in> set (m_runningGroups d) \<or> g = createWorkGroup E d T)
     \<and> (getGroupID previous = T \<longrightarrow> d1 = d)
     \<and> (getGroupID previous \<noteq> T \<longrightarrow>
          (\<exists>pre post. m_runningGroups d = pre @ g # post
              \<and> m_runningGroups d1 = pre @ post @ [previous]
              \<and> m_pendingGroups d1 = m_pendingGroups d)
          \<or> (g = createWorkGroup E d T
              \<and> m_runningGroups d1 = m_runningGroups d @ [previous]
              \<and> (\<exists>pre post. m_pendingGroups d = pre @ T # post
                    \<and> m_pendingGroups d1 = pre @ post)))"
proof (cases "getGroupID previous = T")
  case True
  with assms(2) show ?thesis by (simp add: locateWorkGroup_def)
next
  case False
  show ?thesis
  proof (cases "takeRunning T (m_runningGroups d)")
    case (Some p)
    obtain g rest where p: "p = (g, rest)" by (cases p)
    from takeRunning_Some [OF Some [unfolded p]] obtain pre post where
      "getGroupID g = T" "g \<in> set (m_runningGroups d)"
      "m_runningGroups d = pre @ g # post" "rest = pre @ post"
      by blast
    with False Some p show ?thesis
      by (simp add: locateWorkGroup_def) blast
  next
    case None
    with assms(1) False have "T \<in> set (m_pendingGroups d)"
      by (auto simp: takeRunning_None)
    then obtain rest where t: "takePending T (m_pendingGroups d) = Some rest"
      by (cases "takePending T (m_pendingGroups d)") (auto simp: takePending_None)
    from takePending_Some [OF t] obtain pre post where
      "m_pendingGroups d = pre @ T # post" "rest = pre @ post"
      by blast
    with False None t assms(3) show ?thesis
      by (simp add: locateWorkGroup_def) blast
  qed
qed

text \<open>
  What the command establishes of a target group \<open>T = G / local_size\<close> that is the
  current group, in the running pool or in the pending pool, and that has a
  work-item of local id \<open>G mod local_size\<close>: the current work-group has the group
  id \<open>T\<close>, the current work-item is its work-item with that local id, and the
  pools are as they were when the target is the current group; otherwise the
  target comes out of the running pool, or is created from the pending pool and
  erased there, and the previous current group is appended to the tail of the
  running pool.
\<close>

lemma workitem_locates:
  assumes "workitem_args E d args 1 (0, 0, 0) = Inr (Some (g0, g1, g2))"
    and "m_localSize d = (l0, l1, l2)" and "l0 \<noteq> 0" and "l1 \<noteq> 0" and "l2 \<noteq> 0"
    and "T = (g0 div l0, g1 div l1, g2 div l2)"
    and "lid = (g0 mod l0, g1 mod l1, g2 mod l2)"
    and "m_currentWorkGroup d = Some previous"
    and "getGroupID previous = T \<or> (\<exists>g \<in> set (m_runningGroups d). getGroupID g = T)
      \<or> T \<in> set (m_pendingGroups d)"
    and "getGroupID (createWorkGroup E d T) = T"
    and "\<forall>g. getGroupID g = T
            \<and> (g = previous \<or> g \<in> set (m_runningGroups d) \<or> g = createWorkGroup E d T)
          \<longrightarrow> getWorkItem g lid \<noteq> None"
  shows "\<exists>d' g w. workitem E args d = Inr d'
     \<and> m_currentWorkGroup d' = Some g \<and> getGroupID g = T
     \<and> currentItem d' = Some w \<and> w \<in> set (workItems g) \<and> getLocalID w = lid
     \<and> (getGroupID previous = T \<longrightarrow>
          g = previous \<and> m_runningGroups d' = m_runningGroups d
          \<and> m_pendingGroups d' = m_pendingGroups d)
     \<and> (getGroupID previous \<noteq> T \<longrightarrow>
          (\<exists>pre post. m_runningGroups d = pre @ g # post
              \<and> m_runningGroups d' = pre @ post @ [previous]
              \<and> m_pendingGroups d' = m_pendingGroups d)
          \<or> (g = createWorkGroup E d T
              \<and> m_runningGroups d' = m_runningGroups d @ [previous]
              \<and> (\<exists>pre post. m_pendingGroups d = pre @ T # post
                    \<and> m_pendingGroups d' = pre @ post)))"
proof -
  from locateWorkGroup_cases [OF assms(9) assms(8) assms(10)]
  obtain d1 g where loc: "locateWorkGroup E T previous d = Some d1"
    and g: "m_currentWorkGroup d1 = Some g" "getGroupID g = T"
    and mem: "g = previous \<or> g \<in> set (m_runningGroups d) \<or> g = createWorkGroup E d T"
    and same: "getGroupID previous = T \<longrightarrow> d1 = d"
    and pools: "getGroupID previous \<noteq> T \<longrightarrow>
          (\<exists>pre post. m_runningGroups d = pre @ g # post
              \<and> m_runningGroups d1 = pre @ post @ [previous]
              \<and> m_pendingGroups d1 = m_pendingGroups d)
          \<or> (g = createWorkGroup E d T
              \<and> m_runningGroups d1 = m_runningGroups d @ [previous]
              \<and> (\<exists>pre post. m_pendingGroups d = pre @ T # post
                    \<and> m_pendingGroups d1 = pre @ post))"
    by blast
  from assms(11) g mem have "getWorkItem g lid \<noteq> None" by blast
  then obtain i where i: "getWorkItem g lid = Some i"
    by auto
  define w where "w = workItems g ! i"
  from i have il: "i < length (workItems g)" and wl: "getLocalID w = lid"
    by (simp_all add: getWorkItem_def findLocal_Some w_def)
  from il have ws: "w \<in> set (workItems g)" by (simp add: w_def)
  define d2 where "d2 = d1\<lparr>m_currentWorkItem := Some i,
      cout := emit [S ''Switched to work-item: ('', N g0, S '','', N g1, S '','', N g2, S '')'',
                    NewLine] (cout d1)\<rparr>"
  have c2: "currentItem d2 = Some w"
    using g il by (simp add: d2_def currentItem_def w_def)
  have "\<exists>c. workitem E args d = Inr (d2\<lparr>cout := c\<rparr>)"
  proof (cases "getState w = FINISHED")
    case True
    with assms(1-8) loc g i c2 show ?thesis
      by (auto simp: workitem_def Let_def d2_def [symmetric])
  next
    case False
    from printCurrentLine_cout [of E d2] obtain c where "printCurrentLine E d2 = d2\<lparr>cout := c\<rparr>" ..
    with False assms(1-8) loc g i c2 show ?thesis
      by (auto simp: workitem_def Let_def d2_def [symmetric])
  qed
  then obtain c where r: "workitem E args d = Inr (d2\<lparr>cout := c\<rparr>)" ..
  have "m_currentWorkGroup (d2\<lparr>cout := c\<rparr>) = Some g"
    "currentItem (d2\<lparr>cout := c\<rparr>) = Some w"
    "m_runningGroups (d2\<lparr>cout := c\<rparr>) = m_runningGroups d1"
    "m_pendingGroups (d2\<lparr>cout := c\<rparr>) = m_pendingGroups d1"
    using g c2 by (simp_all add: d2_def currentItem_def)
  with r g ws wl same pools assms(8) show ?thesis
    by (intro exI [of _ "d2\<lparr>cout := c\<rparr>"] exI [of _ g] exI [of _ w]) auto
qed

lemmas offset_defs =
  run_def run_setup_def run_setup_loop.simps run_setup_body_def deref_def
  run_createPending_def pending_k_zyx zyx_order_2_1_1 Let_def
  run_start_def nextWorkItem.simps leaveWorkGroup_def switchWorkGroup_def
  createWorkGroup_def script_ext_def script_group_def getNextWorkItem_def
  info_def printCurrentLine_def printSourceLine_def currentItem_def
  getCurrentLineNumber_def getLineNumber_def script_instruction_def
  m_commands_def quit_def run_teardown_def
  kernel_lines_def prog_lines_def dev_offset_cmds_def Device_new_def
  workitem_def workitem_args.simps workitem_arg_def digit_def locateWorkGroup_def
  getWorkItem_def emit_def quote_def

text \<open>
  C8. The \<^verbatim>\<open>workitem\<close> command is given the global id of a work-item (its help
  text: \<^verbatim>\<open>specifying the global ID of the work-item\<close>), and the work-item with
  that global id should be current afterwards. The command checks the id
  against the global size and selects the group \<open>G / local_size\<close> and the local id
  \<open>G mod local_size\<close>: the global offset, which the constructor of the work-groups
  receives, is left out (line 1404: \<^verbatim>\<open>TODO: Take offsets into account?\<close>).

  An invocation of four work-items in two work-groups with the global offset
  \<open>(10,0,0)\<close> has the work-items of global id 10 to 13. There \<^verbatim>\<open>workitem 3\<close> leaves
  current the work-item of global id \<open>(13,0,0)\<close>, not \<open>(3,0,0)\<close>: the one of
  local id \<open>(1,0,0)\<close> in the group \<open>(1,0,0)\<close>, with the previous group at the tail
  of the running pool. \<^verbatim>\<open>workitem 13\<close>, which names that work-item by its global
  id, is refused as an invalid global id. In the session \<^verbatim>\<open>workitem 3\<close>, \<^verbatim>\<open>info\<close>,
  \<^verbatim>\<open>quit\<close> the debugger writes \<^verbatim>\<open>Switched to work-item: (3,0,0)\<close> and then, for
  \<^verbatim>\<open>info\<close>, \<^verbatim>\<open>Current work-item: (13,0,0)\<close>.
\<close>

theorem workitem_ignores_global_offset:
  "(\<exists>ds dp d1 d2 g w.
      run_setup 1 [10] [4] [2] dev_offset_cmds = Inr ds
      \<and> run_createPending ds = Inr dp
      \<and> run_start 5 (script_ext prog_lines) kernel_lines dp = Some (Inr d1)
      \<and> m_globalSize d1 = (4, 1, 1) \<and> m_globalOffset d1 = (10, 0, 0)
      \<and> m_localSize d1 = (2, 1, 1)
      \<and> workitem (script_ext prog_lines) [''workitem'', ''3''] d1 = Inr d2
      \<and> m_currentWorkGroup d2 = Some g \<and> getGroupID g = (1, 0, 0)
      \<and> currentItem d2 = Some w \<and> getLocalID w = (1, 0, 0)
      \<and> getGlobalID w = (13, 0, 0)
      \<and> map getGlobalID (workItems g) = [(12, 0, 0), (13, 0, 0)]
      \<and> map getGroupID (m_runningGroups d2) = [(0, 0, 0)] \<and> m_pendingGroups d2 = []
      \<and> workitem (script_ext prog_lines) [''workitem'', ''13''] d1 =
          Inr (d1\<lparr>cout := emit [S ''Invalid global ID.'', NewLine] (cout d1)\<rparr>))
   \<and> (case run 5 (script_ext prog_lines) (m_commands 5 (script_ext prog_lines)) kernel_lines
           1 [10] [4] [2] dev_offset_cmds of
        Some (Inr d') \<Rightarrow>
          written (cout d') =
            [Endl, Str (''Running kernel '' @ quote), Str ''k'', Str quote, Endl,
             Str ''-> Global work size:   ('', Num Dec 4, Str '','', Num Dec 1, Str '','',
             Num Dec 1, Str '')'', Endl,
             Str ''-> Global work offset: ('', Num Dec 10, Str '','', Num Dec 0, Str '','',
             Num Dec 0, Str '')'', Endl,
             Str ''-> Local work size:    ('', Num Dec 2, Str '','', Num Dec 1, Str '','',
             Num Dec 1, Str '')'', Endl,
             Endl, Str ''Current work-item: ('', Num Dec 10, Str '','', Num Dec 0, Str '','',
             Num Dec 0, Str '')'', Endl,
             Num Dec 1, Str tab, Str ''x = a * b + c;'', Endl,
             Str ''(oclgrind) '',
             Str ''Switched to work-item: ('', Num Dec 3, Str '','', Num Dec 0, Str '','',
             Num Dec 0, Str '')'', Endl,
             Num Dec 1, Str tab, Str ''x = a * b + c;'', Endl,
             Str ''(oclgrind) '',
             Str (''Running kernel '' @ quote), Str ''k'', Str quote, Endl,
             Str ''-> Global work size:   ('', Num Dec 4, Str '','', Num Dec 1, Str '','',
             Num Dec 1, Str '')'', Endl,
             Str ''-> Global work offset: ('', Num Dec 10, Str '','', Num Dec 0, Str '','',
             Num Dec 0, Str '')'', Endl,
             Str ''-> Local work size:    ('', Num Dec 2, Str '','', Num Dec 1, Str '','',
             Num Dec 1, Str '')'', Endl,
             Endl, Str ''Current work-item: ('', Num Dec 13, Str '','', Num Dec 0, Str '','',
             Num Dec 0, Str '')'', Endl,
             Num Dec 1, Str tab, Str ''x = a * b + c;'', Endl,
             Str ''(oclgrind) '']
      | _ \<Rightarrow> False)"
  by (simp add: offset_defs fuel_5)


end
